theory Spec2Isabelle
  imports Main
begin

section \<open>Python built-ins used by the event manager\<close>

text \<open>
  Strings are byte strings restricted to what the source handles as ASCII text.
  Exceptions are values: the class of the exception that the Python code raises.
\<close>

datatype excepcion =
    ValueError | KeyError | TypeError | AttributeError | RuntimeError
  | CalledProcessError | OSError

text \<open>\<open>str.isspace\<close> on ASCII: space, tab, LF, VT, FF, CR and the separators 0x1C-0x1F.\<close>

definition es_espacio :: "char \<Rightarrow> bool" where
  "es_espacio c = (c \<in> set [CHR '' '', CHR 0x09, CHR 0x0A, CHR 0x0B, CHR 0x0C, CHR 0x0D,
                               CHR 0x1C, CHR 0x1D, CHR 0x1E, CHR 0x1F])"

text \<open>\<open>s.strip()\<close>: whitespace removed at both ends.\<close>

definition strip :: "string \<Rightarrow> string" where
  "strip s = rev (dropWhile es_espacio (rev (dropWhile es_espacio s)))"

definition es_digito :: "char \<Rightarrow> bool" where
  "es_digito c = (c \<in> set ''0123456789'')"

definition valor_digito :: "char \<Rightarrow> int" where
  "valor_digito c = int (of_char c) - 48"

text \<open>
  The body of a decimal literal accepted by \<open>int(text)\<close>: digits, with single
  underscores allowed between two digits.
\<close>

fun cuerpo_entero :: "string \<Rightarrow> bool" where
  "cuerpo_entero [] = False"
| "cuerpo_entero [c] = es_digito c"
| "cuerpo_entero (c # d # cs) =
     (es_digito c \<and> (if d = CHR ''_'' then cuerpo_entero cs else cuerpo_entero (d # cs)))"

definition valor_entero :: "string \<Rightarrow> int" where
  "valor_entero s = foldl (\<lambda>a c. 10 * a + valor_digito c) 0 (filter (\<lambda>c. c \<noteq> CHR ''_'') s)"

text \<open>
  The whitespace that \<open>int(text)\<close> skips around an ASCII text: space, tab, LF, VT, FF
  and CR. The separators 0x1C-0x1F, which \<open>strip\<close> removes, are not among them.
\<close>

definition es_espacio_int :: "char \<Rightarrow> bool" where
  "es_espacio_int c =
     (c \<in> set [CHR '' '', CHR 0x09, CHR 0x0A, CHR 0x0B, CHR 0x0C, CHR 0x0D])"

definition recortar_int :: "string \<Rightarrow> string" where
  "recortar_int s = rev (dropWhile es_espacio_int (rev (dropWhile es_espacio_int s)))"

text \<open>
  The interpreter's default limit on the number of digits of a decimal literal
  (\<open>sys.int_max_str_digits\<close>): underscores do not count, leading zeros do.
\<close>

definition limite_digitos :: nat where
  "limite_digitos = 4300"

definition pocos_digitos :: "string \<Rightarrow> bool" where
  "pocos_digitos cs = (length (filter es_digito cs) \<le> limite_digitos)"

text \<open>
  \<open>int(text)\<close> in base 10: surrounding whitespace is skipped, one sign is allowed, and
  the digits are at most as many as the limit; \<open>None\<close> stands for the \<open>ValueError\<close>
  raised on any other text.
\<close>

definition py_int :: "string \<Rightarrow> int option" where
  "py_int s =
     (case recortar_int s of
        [] \<Rightarrow> None
      | c # cs \<Rightarrow>
          if c = CHR ''-'' then
            (if cuerpo_entero cs \<and> pocos_digitos cs then Some (- valor_entero cs) else None)
          else if c = CHR ''+'' then
            (if cuerpo_entero cs \<and> pocos_digitos cs then Some (valor_entero cs) else None)
          else if cuerpo_entero (c # cs) \<and> pocos_digitos (c # cs)
            then Some (valor_entero (c # cs)) else None)"

definition digito :: "int \<Rightarrow> char" where
  "digito d = ''0123456789'' ! nat d"

function digitos :: "int \<Rightarrow> string" where
  "digitos n = (if n < 10 then [digito n] else digitos (n div 10) @ [digito (n mod 10)])"
  by pat_completeness auto
termination
  by (relation "measure nat") auto

declare digitos.simps [simp del]

text \<open>\<open>str(n)\<close> for an integer.\<close>

definition str_int :: "int \<Rightarrow> string" where
  "str_int n = (if n < 0 then CHR ''-'' # digitos (- n) else digitos n)"

section \<open>EventoConfig and its validation\<close>

record EventoConfig =
  nombre :: string
  titulo :: string
  puerto :: int
  tracker :: string
  source :: string
  host :: string
  bitrate :: int
  token :: string

definition es_alnum :: "char \<Rightarrow> bool" where
  "es_alnum c =
     (let n = (of_char c :: nat)
      in (97 \<le> n \<and> n \<le> 122) \<or> (65 \<le> n \<and> n \<le> 90) \<or> (48 \<le> n \<and> n \<le> 57))"

text \<open>
  In both patterns \<open>$\<close> matches at the end of the text and also just before one final
  line feed; the character classes exclude the line feed, so a match of the whole
  pattern is a match of the text without that final line feed.
\<close>

definition sin_salto_final :: "string \<Rightarrow> string" where
  "sin_salto_final s = (if s \<noteq> [] \<and> last s = CHR 0x0A then butlast s else s)"

text \<open>\<open>re.match(r'^[a-zA-Z0-9_-]+$', s)\<close>.\<close>

definition coincide_nombre :: "string \<Rightarrow> bool" where
  "coincide_nombre s =
     (let t = sin_salto_final s
      in t \<noteq> [] \<and> list_all (\<lambda>c. es_alnum c \<or> c = CHR ''_'' \<or> c = CHR ''-'') t)"

fun partir :: "char \<Rightarrow> string \<Rightarrow> string list" where
  "partir sep [] = [[]]"
| "partir sep (x # xs) =
     (if x = sep then [] # partir sep xs
      else (case partir sep xs of [] \<Rightarrow> [[x]] | y # ys \<Rightarrow> (x # y) # ys))"

text \<open>
  One label of the domain pattern, \<open>[a-zA-Z0-9]([a-zA-Z0-9-]{0,61}[a-zA-Z0-9])?\<close>:
  1 to 63 characters, letters, digits and hyphens, the first and the last not a hyphen.
\<close>

definition etiqueta_valida :: "string \<Rightarrow> bool" where
  "etiqueta_valida l =
     (l \<noteq> [] \<and> length l \<le> 63 \<and> es_alnum (hd l) \<and> es_alnum (last l)
      \<and> list_all (\<lambda>c. es_alnum c \<or> c = CHR ''-'') l)"

text \<open>\<open>_es_dominio_valido\<close>: labels separated by dots.\<close>

definition es_dominio_valido :: "string \<Rightarrow> bool" where
  "es_dominio_valido dominio =
     list_all etiqueta_valida (partir (CHR ''.'') (sin_salto_final dominio))"

text \<open>
  \<open>_es_ip_valida\<close>: the parser \<open>ipaddress.ip_address\<close> belongs to the standard library
  and is a parameter here, true where it accepts the text and false where it raises
  \<open>ValueError\<close> (which the method catches).
\<close>

definition es_ip_valida :: "(string \<Rightarrow> bool) \<Rightarrow> string \<Rightarrow> bool" where
  "es_ip_valida ip_address ip = (if ip_address ip then True else False)"

text \<open>The six messages that \<open>validar\<close> can append, in the order of its checks.\<close>

datatype violacion =
    NombreInvalido | PuertoInvalido | HostInvalido | BitrateInvalido
  | TituloVacio | FuenteVacia

definition validar :: "(string \<Rightarrow> bool) \<Rightarrow> EventoConfig \<Rightarrow> violacion list" where
  "validar ip_address c =
     (if nombre c = [] \<or> \<not> coincide_nombre (nombre c) then [NombreInvalido] else []) @
     (if \<not> (1024 \<le> puerto c \<and> puerto c \<le> 65535) then [PuertoInvalido] else []) @
     (if \<not> es_ip_valida ip_address (host c) \<and> \<not> es_dominio_valido (host c)
      then [HostInvalido] else []) @
     (if \<not> (0 \<le> bitrate c \<and> bitrate c \<le> 10000000) then [BitrateInvalido] else []) @
     (if strip (titulo c) = [] then [TituloVacio] else []) @
     (if strip (source c) = [] then [FuenteVacia] else [])"

section \<open>Values decoded from JSON\<close>

text \<open>
  What \<open>response.json()\<close> can return, and what a cell of a row read from the store can
  hold: \<open>JNull\<close> is Python's \<open>None\<close>, \<open>JStr\<close> a \<open>str\<close>. Numbers with a fraction are
  left out. An object keeps its members in document order.
\<close>

datatype json =
    JNull | JBool bool | JInt int | JStr string
  | JArr "json list" | JObj "(string \<times> json) list"

text \<open>Truth value of a Python value in a condition.\<close>

fun es_verdadero :: "json \<Rightarrow> bool" where
  "es_verdadero JNull = False"
| "es_verdadero (JBool b) = b"
| "es_verdadero (JInt n) = (n \<noteq> 0)"
| "es_verdadero (JStr s) = (s \<noteq> [])"
| "es_verdadero (JArr xs) = (xs \<noteq> [])"
| "es_verdadero (JObj kvs) = (kvs \<noteq> [])"

text \<open>
  \<open>d.get(k, defecto)\<close> and \<open>d.get(k)\<close> on a dict given by its members in order: the
  last member with that key wins, a missing key gives the default, \<open>None\<close> in the
  second form.
\<close>

type_synonym dict = "(string \<times> json) list"

definition dict_get_defecto :: "dict \<Rightarrow> string \<Rightarrow> json \<Rightarrow> json" where
  "dict_get_defecto kvs k defecto = (case map_of (rev kvs) k of None \<Rightarrow> defecto | Some v \<Rightarrow> v)"

definition dict_get :: "dict \<Rightarrow> string \<Rightarrow> json" where
  "dict_get kvs k = dict_get_defecto kvs k JNull"

definition no_encontrado :: string where
  "no_encontrado = ''No encontrado''"

section \<open>The record store (CSV file)\<close>

text \<open>
  The file is modelled by its parsed lines, the header line first: quoting and line
  separators are below this level. A blank line is the empty row.
\<close>

type_synonym fila = "string list"
type_synonym csv_file = "fila list"
type_synonym evento = "string \<Rightarrow> json option"

definition cabeceras :: "string list" where
  "cabeceras = [''name'', ''title'', ''port'', ''service_access_token'', ''tracker'',
                ''source'', ''host'', ''bitrate'', ''content_id'']"

text \<open>\<open>_inicializar_csv\<close>: a missing file (\<open>None\<close>) is created with the header only.\<close>

definition inicializar_csv :: "csv_file option \<Rightarrow> csv_file" where
  "inicializar_csv f = (case f of None \<Rightarrow> [cabeceras] | Some lineas \<Rightarrow> lineas)"

text \<open>\<open>_guardar_evento\<close>: the row is appended when its length is the header's.\<close>

definition guardar_evento :: "fila \<Rightarrow> csv_file \<Rightarrow> excepcion + csv_file" where
  "guardar_evento ev f =
     (if length ev \<noteq> length cabeceras then Inl ValueError else Inr (f @ [ev]))"

text \<open>
  One row as \<open>csv.DictReader\<close> returns it: \<open>dict(zip(fieldnames, row))\<close>, and the field
  names that a short row leaves without a cell are set to \<open>None\<close>. The cells of a long
  row beyond the field names go under the key \<open>None\<close>, which the manager never reads;
  they are dropped here.
\<close>

definition fila_a_dict :: "string list \<Rightarrow> fila \<Rightarrow> evento" where
  "fila_a_dict fieldnames row =
     fold (\<lambda>k d. d(k \<mapsto> JNull)) (drop (length row) fieldnames)
       (fold (\<lambda>(k, v) d. d(k \<mapsto> JStr v)) (zip fieldnames row) Map.empty)"

text \<open>
  \<open>_leer_eventos_csv\<close>: the first line gives the field names, blank lines are skipped.
\<close>

definition leer_eventos_csv :: "csv_file \<Rightarrow> evento list" where
  "leer_eventos_csv f =
     (case f of
        [] \<Rightarrow> []
      | fieldnames # lineas \<Rightarrow> map (fila_a_dict fieldnames) (filter (\<lambda>r. r \<noteq> []) lineas))"

text \<open>
  The text that \<open>csv.writer\<close> writes for a value: nothing for \<open>None\<close>, a \<open>str\<close> as it
  is, \<open>str(v)\<close> for any other value; the built-in \<open>str\<close> is the parameter \<open>str_valor\<close>.
\<close>

definition texto_celda :: "(json \<Rightarrow> string) \<Rightarrow> json \<Rightarrow> string" where
  "texto_celda str_valor v = (case v of JNull \<Rightarrow> [] | JStr s \<Rightarrow> s | _ \<Rightarrow> str_valor v)"

text \<open>\<open>[evento.get(campo, '') for campo in self.cabeceras]\<close>, as written to the file.\<close>

definition fila_de_evento :: "(json \<Rightarrow> string) \<Rightarrow> evento \<Rightarrow> fila" where
  "fila_de_evento str_valor ev =
     map (\<lambda>campo. case ev campo of None \<Rightarrow> [] | Some v \<Rightarrow> texto_celda str_valor v) cabeceras"

text \<open>
  The loop of \<open>_actualizar_content_id\<close> over the rows read before the file was opened for
  writing; \<open>escrito\<close> is what the file holds so far. \<open>evento['name']\<close> raises \<open>KeyError\<close>
  when the field names do not include \<open>name\<close>: the file then keeps what was written.
\<close>

fun escribir_eventos ::
  "(json \<Rightarrow> string) \<Rightarrow> string \<Rightarrow> json \<Rightarrow> evento list \<Rightarrow> csv_file \<Rightarrow> csv_file \<times> excepcion option"
where
  "escribir_eventos str_valor nom cid [] escrito = (escrito, None)"
| "escribir_eventos str_valor nom cid (ev # evs) escrito =
     (case ev ''name'' of
        None \<Rightarrow> (escrito, Some KeyError)
      | Some n \<Rightarrow>
          let ev' = (if n = JStr nom then ev(''content_id'' \<mapsto> cid) else ev)
          in escribir_eventos str_valor nom cid evs (escrito @ [fila_de_evento str_valor ev']))"

definition actualizar_content_id ::
  "(json \<Rightarrow> string) \<Rightarrow> string \<Rightarrow> json \<Rightarrow> csv_file \<Rightarrow> csv_file \<times> excepcion option"
where
  "actualizar_content_id str_valor nom cid f =
     escribir_eventos str_valor nom cid (leer_eventos_csv f) [cabeceras]"

section \<open>Cleaning a volume\<close>

datatype sistema = Windows | Linux | OtroSistema

text \<open>
  A directory entry, by what \<open>is_file()\<close> does on it: a regular file, for which it is
  true (with whether \<open>unlink\<close> succeeds on the file); a subdirectory with its own
  entries, for which it is false; or an entry that cannot be examined, on which it raises
  \<open>OSError\<close>. A path leads to nothing, to something that cannot be listed, or to a
  directory.
\<close>

datatype entrada =
    Archivo string bool
  | Carpeta string "entrada list"
  | Inexaminable string

datatype ruta = NoExiste | NoDirectorio | Directorio "entrada list"

type_synonym sistema_archivos = "string \<Rightarrow> ruta"

definition ruta_base :: "sistema \<Rightarrow> string \<Rightarrow> string option" where
  "ruta_base so nombre_volumen =
     (case so of
        Windows \<Rightarrow>
          Some ([CHR 0x5C, CHR 0x5C] @ ''wsl.localhost'' @ [CHR 0x5C] @ ''docker-desktop''
                @ [CHR 0x5C] @ ''mnt'' @ [CHR 0x5C] @ ''docker-desktop-disk'' @ [CHR 0x5C]
                @ ''data'' @ [CHR 0x5C] @ ''docker'' @ [CHR 0x5C] @ ''volumes'' @ [CHR 0x5C]
                @ nombre_volumen @ [CHR 0x5C] @ ''_data'')
      | Linux \<Rightarrow> Some (''/var/lib/docker/volumes/'' @ nombre_volumen @ ''/_data'')
      | OtroSistema \<Rightarrow> None)"

fun rfind_desde :: "char \<Rightarrow> string \<Rightarrow> int \<Rightarrow> int \<Rightarrow> int" where
  "rfind_desde c [] i hallado = hallado"
| "rfind_desde c (x # xs) i hallado = rfind_desde c xs (i + 1) (if x = c then i else hallado)"

text \<open>\<open>s.rfind(c)\<close>: the last index of \<open>c\<close>, or -1.\<close>

definition rfind :: "char \<Rightarrow> string \<Rightarrow> int" where
  "rfind c s = rfind_desde c s 0 (- 1)"

text \<open>
  \<open>Path.suffix\<close> of a file name: from the last dot on, unless that dot is the first or
  the last character of the name.
\<close>

definition sufijo :: "string \<Rightarrow> string" where
  "sufijo name =
     (let i = rfind (CHR ''.'') name
      in if 0 < i \<and> i < int (length name) - 1 then drop (nat i) name else [])"

definition extensiones_permitidas :: "string set" where
  "extensiones_permitidas = {''.acelive'', ''.sauth''}"

text \<open>
  The loop over \<open>ruta_base.iterdir()\<close>: the count of deleted files at its end, or the
  exception that leaves it, and the entries that remain in the directory. The inner
  handler covers \<open>unlink\<close> only: \<open>is_file()\<close> is called outside it, so an entry on which
  it raises ends the loop there, with the entries from that one on left as they are and
  the files deleted before it gone.
\<close>

fun limpiar_bucle :: "entrada list \<Rightarrow> nat \<Rightarrow> (excepcion + nat) \<times> entrada list" where
  "limpiar_bucle [] eliminados = (Inr eliminados, [])"
| "limpiar_bucle (Archivo name borrable # es) eliminados =
     (if sufijo name \<notin> extensiones_permitidas then
        (if borrable then limpiar_bucle es (eliminados + 1)
         else (case limpiar_bucle es eliminados of
                 (r, quedan) \<Rightarrow> (r, Archivo name borrable # quedan)))
      else (case limpiar_bucle es eliminados of
              (r, quedan) \<Rightarrow> (r, Archivo name borrable # quedan)))"
| "limpiar_bucle (Carpeta name hijos # es) eliminados =
     (case limpiar_bucle es eliminados of (r, quedan) \<Rightarrow> (r, Carpeta name hijos # quedan))"
| "limpiar_bucle (Inexaminable name # es) eliminados = (Inl OSError, Inexaminable name # es)"

text \<open>
  \<open>limpiar_archivos_temporales\<close>: the count returned and the file system afterwards.
  Listing something that is not a directory raises, and so may the loop; the outer
  handler then returns 0, whatever has been deleted.
\<close>

definition limpiar_archivos_temporales ::
  "sistema \<Rightarrow> sistema_archivos \<Rightarrow> string \<Rightarrow> nat \<times> sistema_archivos"
where
  "limpiar_archivos_temporales so fs nombre_volumen =
     (case ruta_base so nombre_volumen of
        None \<Rightarrow> (0, fs)
      | Some p \<Rightarrow>
          (case fs p of
             NoExiste \<Rightarrow> (0, fs)
           | NoDirectorio \<Rightarrow> (0, fs)
           | Directorio es \<Rightarrow>
               (case limpiar_bucle es 0 of
                  (Inr n, quedan) \<Rightarrow> (n, fs(p := Directorio quedan))
                | (Inl e, quedan) \<Rightarrow> (0, fs(p := Directorio quedan)))))"

section \<open>The docker command\<close>

definition construir_comando_docker :: "EventoConfig \<Rightarrow> string list" where
  "construir_comando_docker config =
     [''docker'', ''run'', ''-d'', ''--restart'', ''unless-stopped'',
      ''--name'', nombre config,
      ''-p'', str_int (puerto config) @ '':'' @ str_int (puerto config) @ ''/tcp'',
      ''-p'', str_int (puerto config) @ '':'' @ str_int (puerto config) @ ''/udp'',
      ''-v'', ''acestreamengine_'' @ nombre config @ '':/data'',
      ''lob666/acestreamengine'',
      ''--port'', str_int (puerto config),
      ''--tracker'', tracker config,
      ''--stream-source'',
      ''--name'', nombre config,
      ''--title'', titulo config,
      ''--publish-dir'', ''/data'',
      ''--cache-dir'', ''/data'',
      ''--skip-internal-tracker'',
      ''--quality'', ''HD'',
      ''--category'', ''amateur'',
      ''--service-access-token'', token config,
      ''--service-remote-access'',
      ''--log-debug'', ''1'',
      ''--max-peers'', ''6'',
      ''--max-upload-slots'', ''6'',
      ''--source-read-timeout'', ''15'',
      ''--source-reconnect-interval'', ''1'',
      ''--host'', host config,
      ''--source'', source config,
      ''--bitrate'', str_int (bitrate config)]"

section \<open>Polling the monitor endpoint\<close>

text \<open>
  One answer of \<open>requests.get\<close>: a \<open>RequestException\<close>, or a response with its status
  code and its body, for which \<open>response.json()\<close> either raises \<open>ValueError\<close> or returns
  the decoded value.
\<close>

datatype cuerpo = NoJson | Json json

datatype respuesta = RequestException | Respuesta int cuerpo

text \<open>
  The body of the loop for one answer: \<open>None\<close> when the loop goes on to the next
  attempt, the returned dict, or the exception that leaves the method: \<open>.get\<close> on a
  decoded value that is not a dict raises \<open>AttributeError\<close>, which no handler of the
  method catches.
\<close>

definition intentar :: "respuesta \<Rightarrow> (excepcion + dict) option" where
  "intentar r =
     (case r of
        RequestException \<Rightarrow> None
      | Respuesta status_code c \<Rightarrow>
          if status_code = 200 then
            (case c of
               NoJson \<Rightarrow> None
             | Json monitor_data \<Rightarrow>
                 (case monitor_data of
                    JObj kvs \<Rightarrow>
                      let cid = dict_get kvs ''content_id'';
                          dh = dict_get kvs ''download_hash''
                      in if es_verdadero cid \<and> cid \<noteq> JStr no_encontrado
                         then Some (Inr [(''content_id'', cid), (''download_hash'', dh)])
                         else None
                  | _ \<Rightarrow> Some (Inl AttributeError)))
          else None)"

text \<open>
  The loop \<open>for intento in range(intentos)\<close>: \<open>restantes\<close> attempts are left, \<open>intento\<close>
  requests have been made. The result comes with the number of requests made.
\<close>

fun bucle_monitor ::
  "(nat \<Rightarrow> respuesta) \<Rightarrow> nat \<Rightarrow> nat \<Rightarrow> (excepcion + dict) \<times> nat"
where
  "bucle_monitor respuestas intento 0 = (Inl RuntimeError, intento)"
| "bucle_monitor respuestas intento (Suc restantes) =
     (case intentar (respuestas intento) of
        Some r \<Rightarrow> (r, Suc intento)
      | None \<Rightarrow> bucle_monitor respuestas (Suc intento) restantes)"

text \<open>
  \<open>obtener_monitor\<close>; \<open>respuestas\<close> gives the answer of the endpoint of this port to the
  request number i (from 0). The waits are not modelled.
\<close>

definition obtener_monitor ::
  "(nat \<Rightarrow> respuesta) \<Rightarrow> string \<Rightarrow> int \<Rightarrow> int \<Rightarrow> (excepcion + dict) \<times> nat"
where
  "obtener_monitor respuestas contenedor_id puerto_monitor intentos =
     bucle_monitor respuestas 0 (nat intentos)"

section \<open>The reconciliation engine\<close>

text \<open>
  The two functions of the standard library that the model takes as parameters:
  whether \<open>ipaddress.ip_address\<close> accepts a text, and \<open>str\<close> on a value that is neither
  \<open>None\<close> nor a \<open>str\<close>.
\<close>

record biblioteca =
  b_ip_address :: "string \<Rightarrow> bool"
  b_str :: "json \<Rightarrow> string"

text \<open>
  What the outside world answers during the cycle of one record. A call of
  \<open>subprocess.run\<close> raises (\<open>Inl\<close>) or returns its standard output (\<open>Inr\<close>).
\<close>

record entorno =
  e_ps_a :: "excepcion + string"
  e_stop :: "excepcion + string"
  e_rm :: "excepcion + string"
  e_sistema :: sistema
  e_archivos :: sistema_archivos
  e_run :: "excepcion + string"
  e_ps :: "excepcion + string"
  e_monitor :: "nat \<Rightarrow> respuesta"

text \<open>What the engine does, in order: the trace of a batch.\<close>

datatype accion =
    Validado "violacion list"
  | DockerPsA string
  | DockerStop string
  | DockerRm string
  | Limpieza string nat
  | DockerRun "string list"
  | DockerPs string
  | Sondeo nat
  | Escritura string json
  | ErrorRegistrado excepcion

record estado =
  archivo :: csv_file
  traza :: "accion list"

definition ligar :: "excepcion + 'a \<Rightarrow> ('a \<Rightarrow> excepcion + 'b) \<Rightarrow> excepcion + 'b" where
  "ligar r k = (case r of Inl e \<Rightarrow> Inl e | Inr x \<Rightarrow> k x)"

text \<open>\<open>evento[k]\<close>.\<close>

definition campo :: "evento \<Rightarrow> string \<Rightarrow> excepcion + json" where
  "campo ev k = (case ev k of None \<Rightarrow> Inl KeyError | Some v \<Rightarrow> Inr v)"

text \<open>\<open>int(v)\<close>.\<close>

definition entero :: "json \<Rightarrow> excepcion + int" where
  "entero v =
     (case v of
        JStr s \<Rightarrow> (case py_int s of None \<Rightarrow> Inl ValueError | Some n \<Rightarrow> Inr n)
      | JInt n \<Rightarrow> Inr n
      | JBool b \<Rightarrow> Inr (if b then 1 else 0)
      | _ \<Rightarrow> Inl TypeError)"

text \<open>
  The arguments of the call \<open>EventoConfig(nombre=evento['name'], ...)\<close> of
  \<open>crear_desde_csv\<close>, evaluated in the order written: name, title, port, tracker, source,
  host, bitrate, token.
\<close>

definition argumentos_config ::
  "evento \<Rightarrow> excepcion + (json \<times> json \<times> int \<times> json \<times> json \<times> json \<times> int \<times> json)"
where
  "argumentos_config ev =
     ligar (campo ev ''name'') (\<lambda>v_nombre.
     ligar (campo ev ''title'') (\<lambda>v_titulo.
     ligar (ligar (campo ev ''port'') entero) (\<lambda>v_puerto.
     ligar (campo ev ''tracker'') (\<lambda>v_tracker.
     ligar (campo ev ''source'') (\<lambda>v_source.
     ligar (campo ev ''host'') (\<lambda>v_host.
     ligar (ligar (campo ev ''bitrate'') entero) (\<lambda>v_bitrate.
     ligar (campo ev ''service_access_token'') (\<lambda>v_token.
       Inr (v_nombre, v_titulo, v_puerto, v_tracker, v_source, v_host, v_bitrate,
            v_token)))))))))"

text \<open>
  An \<open>EventoConfig\<close> object as it is at run time. The dataclass checks none of its
  annotations, so a field declared \<open>str\<close> holds whatever the call passes: for a row read
  by \<open>csv.DictReader\<close>, the \<open>str\<close> of a cell, or \<open>None\<close> where the line is shorter than the
  header. The two numbers come from \<open>int\<close> and are integers.
\<close>

record objeto_config =
  o_nombre :: "string option"
  o_titulo :: "string option"
  o_puerto :: int
  o_tracker :: "string option"
  o_source :: "string option"
  o_host :: "string option"
  o_bitrate :: int
  o_token :: "string option"

text \<open>
  A text argument of the call: a \<open>str\<close> or \<open>None\<close>. A row read from the file holds no
  value of another kind (\<open>valores_de_fila\<close>, \<open>valores_leidos\<close> below); on such a value the
  model answers \<open>TypeError\<close>.
\<close>

definition texto :: "json \<Rightarrow> excepcion + string option" where
  "texto v = (case v of JStr s \<Rightarrow> Inr (Some s) | JNull \<Rightarrow> Inr None | _ \<Rightarrow> Inl TypeError)"

text \<open>The object that the call builds from its arguments.\<close>

definition construir_config :: "evento \<Rightarrow> excepcion + objeto_config" where
  "construir_config ev =
     ligar (argumentos_config ev)
       (\<lambda>(v_nombre, v_titulo, v_puerto, v_tracker, v_source, v_host, v_bitrate, v_token).
     ligar (texto v_nombre) (\<lambda>t_nombre.
     ligar (texto v_titulo) (\<lambda>t_titulo.
     ligar (texto v_tracker) (\<lambda>t_tracker.
     ligar (texto v_source) (\<lambda>t_source.
     ligar (texto v_host) (\<lambda>t_host.
     ligar (texto v_token) (\<lambda>t_token.
       Inr \<lparr>o_nombre = t_nombre, o_titulo = t_titulo, o_puerto = v_puerto,
            o_tracker = t_tracker, o_source = t_source, o_host = t_host,
            o_bitrate = v_bitrate, o_token = t_token\<rparr>)))))))"

text \<open>
  The object with a \<open>str\<close> in every text field is a record of the declared types, and
  every such record is an object.
\<close>

definition tipado :: "objeto_config \<Rightarrow> EventoConfig option" where
  "tipado obj =
     (case (o_nombre obj, o_titulo obj, o_tracker obj, o_source obj, o_host obj, o_token obj) of
        (Some n, Some t, Some tr, Some s, Some h, Some tk) \<Rightarrow>
          Some \<lparr>nombre = n, titulo = t, puerto = o_puerto obj, tracker = tr, source = s,
                host = h, bitrate = o_bitrate obj, token = tk\<rparr>
      | _ \<Rightarrow> None)"

definition como_objeto :: "EventoConfig \<Rightarrow> objeto_config" where
  "como_objeto c =
     \<lparr>o_nombre = Some (nombre c), o_titulo = Some (titulo c), o_puerto = puerto c,
      o_tracker = Some (tracker c), o_source = Some (source c), o_host = Some (host c),
      o_bitrate = bitrate c, o_token = Some (token c)\<rparr>"

text \<open>
  \<open>validar\<close> on the object as it is at run time, check by check in the order of the
  method. On a field that holds \<open>None\<close>: \<open>not self.nombre\<close> is true, and the name is
  reported as a violation; \<open>ipaddress.ip_address(None)\<close> raises the \<open>ValueError\<close> that
  \<open>_es_ip_valida\<close> catches, then \<open>re.match(patron, None)\<close> raises \<open>TypeError\<close>;
  \<open>None.strip()\<close> raises \<open>AttributeError\<close>. The tracker and the token are not examined.
  The checks of the name, the port and the bitrate raise nothing, so the exception that
  leaves the method is that of the host, else of the title, else of the source. With a
  \<open>str\<close> in every text field the result is that of \<open>validar\<close> on the record of the
  declared types (\<open>validar_objeto_tipado\<close> below).
\<close>

definition validar_objeto ::
  "(string \<Rightarrow> bool) \<Rightarrow> objeto_config \<Rightarrow> excepcion + violacion list"
where
  "validar_objeto ip_address obj =
     (case o_host obj of
        None \<Rightarrow> Inl TypeError
      | Some h \<Rightarrow>
          (case o_titulo obj of
             None \<Rightarrow> Inl AttributeError
           | Some t \<Rightarrow>
               (case o_source obj of
                  None \<Rightarrow> Inl AttributeError
                | Some s \<Rightarrow>
                    Inr ((if (case o_nombre obj of
                                None \<Rightarrow> True
                              | Some n \<Rightarrow> n = [] \<or> \<not> coincide_nombre n)
                          then [NombreInvalido] else []) @
                         (if \<not> (1024 \<le> o_puerto obj \<and> o_puerto obj \<le> 65535)
                          then [PuertoInvalido] else []) @
                         (if \<not> es_ip_valida ip_address h \<and> \<not> es_dominio_valido h
                          then [HostInvalido] else []) @
                         (if \<not> (0 \<le> o_bitrate obj \<and> o_bitrate obj \<le> 10000000)
                          then [BitrateInvalido] else []) @
                         (if strip t = [] then [TituloVacio] else []) @
                         (if strip s = [] then [FuenteVacia] else [])))))"

text \<open>A \<open>str\<close> or \<open>None\<close> as an f-string formats it.\<close>

definition formato :: "string option \<Rightarrow> string" where
  "formato v = (case v of None \<Rightarrow> ''None'' | Some s \<Rightarrow> s)"

text \<open>
  \<open>parar_contenedor\<close> and \<open>borrar_contenedor\<close>: \<open>CalledProcessError\<close> is raised again as
  \<open>RuntimeError\<close>, any other exception passes.
\<close>

definition parar_contenedor :: "entorno \<Rightarrow> string \<Rightarrow> excepcion + unit" where
  "parar_contenedor env contenedor_id =
     (case e_stop env of
        Inl e \<Rightarrow> if e = CalledProcessError then Inl RuntimeError else Inl e
      | Inr salida \<Rightarrow> Inr ())"

definition borrar_contenedor :: "entorno \<Rightarrow> string \<Rightarrow> excepcion + unit" where
  "borrar_contenedor env contenedor_id =
     (case e_rm env of
        Inl e \<Rightarrow> if e = CalledProcessError then Inl RuntimeError else Inl e
      | Inr salida \<Rightarrow> Inr ())"

text \<open>\<open>verificar_y_limpiar_contenedor\<close>: both handlers raise the exception again.\<close>

definition verificar_y_limpiar_contenedor ::
  "entorno \<Rightarrow> string \<Rightarrow> (excepcion + unit) \<times> accion list"
where
  "verificar_y_limpiar_contenedor env nom =
     (case e_ps_a env of
        Inl e \<Rightarrow> (Inl e, [DockerPsA nom])
      | Inr salida \<Rightarrow>
          if strip salida \<noteq> [] then
            (case parar_contenedor env (strip salida) of
               Inl e \<Rightarrow> (Inl e, [DockerPsA nom, DockerStop (strip salida)])
             | Inr u \<Rightarrow>
                 (case borrar_contenedor env (strip salida) of
                    Inl e \<Rightarrow>
                      (Inl e, [DockerPsA nom, DockerStop (strip salida), DockerRm (strip salida)])
                  | Inr u' \<Rightarrow>
                      (Inr (), [DockerPsA nom, DockerStop (strip salida), DockerRm (strip salida)])))
          else (Inr (), [DockerPsA nom]))"

text \<open>\<open>ejecutar_docker\<close>.\<close>

definition ejecutar_docker :: "entorno \<Rightarrow> EventoConfig \<Rightarrow> (excepcion + unit) \<times> accion list" where
  "ejecutar_docker env config =
     (let comando = construir_comando_docker config
      in case e_run env of
           Inl e \<Rightarrow> (if e = CalledProcessError then Inl RuntimeError else Inl e, [DockerRun comando])
         | Inr salida \<Rightarrow> (Inr (), [DockerRun comando]))"

text \<open>
  The inner \<open>try\<close> of \<open>crear_desde_csv\<close>: container id, poll, commit. Its handler logs
  whatever is raised; nothing leaves it.
\<close>

definition resolver_content_id ::
  "biblioteca \<Rightarrow> entorno \<Rightarrow> EventoConfig \<Rightarrow> csv_file \<Rightarrow> csv_file \<times> accion list"
where
  "resolver_content_id bib env config f =
     (case e_ps env of
        Inl e \<Rightarrow> (f, [DockerPs (nombre config), ErrorRegistrado e])
      | Inr salida \<Rightarrow>
          (case obtener_monitor (e_monitor env) (strip salida) (puerto config) 10 of
             (Inl e, n) \<Rightarrow> (f, [DockerPs (nombre config), Sondeo n, ErrorRegistrado e])
           | (Inr info, n) \<Rightarrow>
               let cid = dict_get_defecto info ''content_id'' (JStr no_encontrado);
                   dh = dict_get_defecto info ''download_hash'' (JStr no_encontrado)
               in (case actualizar_content_id (b_str bib) (nombre config) cid f of
                     (f', None) \<Rightarrow>
                       (f', [DockerPs (nombre config), Sondeo n, Escritura (nombre config) cid])
                   | (f', Some e) \<Rightarrow>
                       (f', [DockerPs (nombre config), Sondeo n, Escritura (nombre config) cid,
                             ErrorRegistrado e]))))"

text \<open>
  The body of the loop of \<open>crear_desde_csv\<close> for one row, with the outer handler: the
  file afterwards and what was done. The command that \<open>ejecutar_docker\<close> builds holds
  every text field of the config among its words: with \<open>None\<close> in one of them (the
  tracker or the token, which \<open>validar\<close> does not examine) \<open>" ".join(comando)\<close> raises
  \<open>TypeError\<close> before anything is run, after the container of that name has been
  removed and the volume cleaned. Otherwise the object is a record of the declared
  types.
\<close>

definition procesar_evento ::
  "biblioteca \<Rightarrow> entorno \<Rightarrow> evento \<Rightarrow> csv_file \<Rightarrow> csv_file \<times> accion list"
where
  "procesar_evento bib env ev f =
     (case construir_config ev of
        Inl e \<Rightarrow> (f, [ErrorRegistrado e])
      | Inr obj \<Rightarrow>
          (case validar_objeto (b_ip_address bib) obj of
             Inl e \<Rightarrow> (f, [ErrorRegistrado e])
           | Inr errores \<Rightarrow>
               if errores \<noteq> [] then (f, [Validado errores])
               else
                 (case verificar_y_limpiar_contenedor env (formato (o_nombre obj)) of
                    (Inl e, hecho) \<Rightarrow> (f, Validado errores # hecho @ [ErrorRegistrado e])
                  | (Inr u, hecho) \<Rightarrow>
                      let nombre_volumen = ''acestreamengine_'' @ formato (o_nombre obj);
                          archivos_eliminados =
                            fst (limpiar_archivos_temporales (e_sistema env) (e_archivos env)
                                   nombre_volumen);
                          limpieza = [Limpieza nombre_volumen archivos_eliminados]
                      in (case tipado obj of
                            None \<Rightarrow>
                              (f, Validado errores # hecho @ limpieza @ [ErrorRegistrado TypeError])
                          | Some config \<Rightarrow>
                              (case ejecutar_docker env config of
                                 (Inl e, lanzado) \<Rightarrow>
                                   (f, Validado errores # hecho @ limpieza @ lanzado
                                         @ [ErrorRegistrado e])
                               | (Inr u', lanzado) \<Rightarrow>
                                   (case resolver_content_id bib env config f of
                                      (f', resuelto) \<Rightarrow>
                                        (f', Validado errores # hecho @ limpieza @ lanzado
                                               @ resuelto)))))))"

text \<open>
  The loop of \<open>crear_desde_csv\<close> over the indices; \<open>k\<close> counts the indices already
  handled, and \<open>entornos k\<close> is the world during the cycle of the index at position k.
  The result: the exception that leaves the method, if any, and the state reached.
\<close>

fun bucle_indices ::
  "biblioteca \<Rightarrow> (nat \<Rightarrow> entorno) \<Rightarrow> evento list \<Rightarrow> nat \<Rightarrow> int list \<Rightarrow> estado
   \<Rightarrow> excepcion option \<times> estado"
where
  "bucle_indices bib entornos eventos k [] st = (None, st)"
| "bucle_indices bib entornos eventos k (idx # resto) st =
     (if \<not> (0 \<le> idx \<and> idx < int (length eventos)) then (Some ValueError, st)
      else
        (case procesar_evento bib (entornos k) (eventos ! nat idx) (archivo st) of
           (f', hecho) \<Rightarrow>
             bucle_indices bib entornos eventos (Suc k) resto
               \<lparr>archivo = f', traza = traza st @ hecho\<rparr>))"

definition crear_desde_csv ::
  "biblioteca \<Rightarrow> (nat \<Rightarrow> entorno) \<Rightarrow> int list \<Rightarrow> csv_file \<Rightarrow> excepcion option \<times> estado"
where
  "crear_desde_csv bib entornos indices f =
     bucle_indices bib entornos (leer_eventos_csv f) 0 indices \<lparr>archivo = f, traza = []\<rparr>"

section \<open>Notions used in the statements\<close>

text \<open>The test of \<open>crear_desde_csv\<close> on an index.\<close>

definition en_rango :: "evento list \<Rightarrow> int \<Rightarrow> bool" where
  "en_rango eventos idx = (0 \<le> idx \<and> idx < int (length eventos))"

text \<open>
  The validation of a row as \<open>crear_desde_csv\<close> performs it: the config is built from the
  row, then \<open>validar\<close> runs on it.
\<close>

definition validar_evento :: "(string \<Rightarrow> bool) \<Rightarrow> evento \<Rightarrow> excepcion + violacion list" where
  "validar_evento ip_address ev =
     ligar (construir_config ev) (\<lambda>config. validar_objeto ip_address config)"

text \<open>The value that a row gives to the field at position i of the header.\<close>

definition celda_de :: "fila \<Rightarrow> nat \<Rightarrow> json" where
  "celda_de r i = (if i < length r then JStr (r ! i) else JNull)"

text \<open>
  A file is well formed when its first line is the header of \<open>cabeceras\<close> and every
  other line has one cell for each field of the header: the files that the manager
  itself creates, appends to and rewrites.
\<close>

definition bien_formado :: "csv_file \<Rightarrow> bool" where
  "bien_formado f =
     (case f of
        [] \<Rightarrow> False
      | h # filas \<Rightarrow> h = cabeceras \<and> list_all (\<lambda>r. length r = length cabeceras) filas)"

text \<open>
  What a commit is to do to one row: the cell of \<open>content_id\<close> (cell 8) is replaced in a
  row whose name (cell 0) is the given one, any other row is kept.
\<close>

definition fila_actualizada :: "string \<Rightarrow> string \<Rightarrow> fila \<Rightarrow> fila" where
  "fila_actualizada nom celda r = (if r ! 0 = nom then r[8 := celda] else r)"

text \<open>
  The entries that a cleaning is to delete: a regular file whose suffix is not one of
  the permitted ones and whose \<open>unlink\<close> succeeds.
\<close>

definition se_borra :: "entrada \<Rightarrow> bool" where
  "se_borra e =
     (case e of
        Archivo name borrable \<Rightarrow> sufijo name \<notin> extensiones_permitidas \<and> borrable
      | Carpeta name hijos \<Rightarrow> False
      | Inexaminable name \<Rightarrow> False)"

text \<open>The entries that can be examined: \<open>is_file()\<close> does not raise on them.\<close>

definition examinable :: "entrada \<Rightarrow> bool" where
  "examinable e = (case e of Inexaminable name \<Rightarrow> False | _ \<Rightarrow> True)"

text \<open>
  The positions of the docker command that hold a value of the record; every other
  position holds a fixed word.
\<close>

definition posiciones_valor :: "nat set" where
  "posiciones_valor = {6, 8, 10, 12, 15, 17, 20, 22, 33, 46, 48, 50}"

text \<open>
  A usable answer in the words of the specification: status 200, a body that parses,
  \<open>content_id\<close> present (a member of the object, not null) and not the sentinel.
\<close>

definition respuesta_util_spec :: "respuesta \<Rightarrow> bool" where
  "respuesta_util_spec r =
     (case r of
        RequestException \<Rightarrow> False
      | Respuesta status_code c \<Rightarrow>
          status_code = 200 \<and>
          (case c of
             NoJson \<Rightarrow> False
           | Json d \<Rightarrow>
               (case d of
                  JObj kvs \<Rightarrow>
                    dict_get kvs ''content_id'' \<noteq> JNull
                    \<and> dict_get kvs ''content_id'' \<noteq> JStr no_encontrado
                | _ \<Rightarrow> False)))"

text \<open>
  A usable answer for the code: as above, with \<open>content_id\<close> true as a condition (for a
  text: not empty) instead of present.
\<close>

definition respuesta_util :: "respuesta \<Rightarrow> bool" where
  "respuesta_util r =
     (case r of
        RequestException \<Rightarrow> False
      | Respuesta status_code c \<Rightarrow>
          status_code = 200 \<and>
          (case c of
             NoJson \<Rightarrow> False
           | Json d \<Rightarrow>
               (case d of
                  JObj kvs \<Rightarrow>
                    es_verdadero (dict_get kvs ''content_id'')
                    \<and> dict_get kvs ''content_id'' \<noteq> JStr no_encontrado
                | _ \<Rightarrow> False)))"

text \<open>
  Every answer except a status 200 whose body decodes to a value that is not an object.
\<close>

definition cuerpo_esperado :: "respuesta \<Rightarrow> bool" where
  "cuerpo_esperado r =
     (case r of
        RequestException \<Rightarrow> True
      | Respuesta status_code c \<Rightarrow>
          (case c of
             NoJson \<Rightarrow> True
           | Json d \<Rightarrow> (case d of JObj kvs \<Rightarrow> True | _ \<Rightarrow> status_code \<noteq> 200)))"

text \<open>The dict returned for a usable answer.\<close>

definition informe :: "respuesta \<Rightarrow> dict" where
  "informe r =
     (case r of
        Respuesta status_code (Json (JObj kvs)) \<Rightarrow>
          [(''content_id'', dict_get kvs ''content_id''),
           (''download_hash'', dict_get kvs ''download_hash'')]
      | _ \<Rightarrow> [])"

section \<open>Concrete inputs\<close>

text \<open>
  Two records and their rows, a store with both, a volume directory, sequences of
  answers of the endpoint, a library, and two worlds: in \<open>entorno_caido\<close> the endpoint
  never answers.
\<close>

definition config_demo :: EventoConfig where
  "config_demo =
     \<lparr>nombre = ''demo'', titulo = ''Demo'', puerto = 8642,
      tracker = ''udp://tracker.opentrackr.org:1337/announce'',
      source = ''http://10.0.0.9/live.ts'', host = ''10.0.0.5'', bitrate = 600000,
      token = ''12345''\<rparr>"

definition config_otro :: EventoConfig where
  "config_otro =
     \<lparr>nombre = ''final_2'', titulo = ''Final'', puerto = 9000,
      tracker = ''udp://t.example:80/announce'', source = ''http://src.example/a.ts'',
      host = ''stream.example.org'', bitrate = 0, token = ''s3cr3t''\<rparr>"

definition fila_demo :: fila where
  "fila_demo = [''demo'', ''Demo'', ''8642'', ''12345'',
                ''udp://tracker.opentrackr.org:1337/announce'', ''http://10.0.0.9/live.ts'',
                ''10.0.0.5'', ''600000'', []]"

definition fila_otra :: fila where
  "fila_otra = [''final_2'', ''Final'', ''9000'', ''s3cr3t'', ''udp://t.example:80/announce'',
                ''http://src.example/a.ts'', ''stream.example.org'', ''0'', ''viejo'']"

definition fila_repetida :: fila where
  "fila_repetida = [''demo'', ''Demo bis'', ''8650'', ''12345'',
                    ''udp://tracker.opentrackr.org:1337/announce'', ''http://10.0.0.9/b.ts'',
                    ''10.0.0.5'', ''500000'', []]"

definition fila_puerto_malo :: fila where
  "fila_puerto_malo = [''demo'', ''Demo'', ''abc'', ''12345'',
                       ''udp://tracker.opentrackr.org:1337/announce'',
                       ''http://10.0.0.9/live.ts'', ''10.0.0.5'', ''600000'', []]"

definition almacen_demo :: csv_file where
  "almacen_demo = [cabeceras, fila_demo, fila_otra]"

definition almacen_resuelto :: csv_file where
  "almacen_resuelto = [cabeceras, fila_demo[8 := ''abc123''], fila_otra]"

definition directorio_demo :: "entrada list" where
  "directorio_demo =
     [Archivo ''a.acelive'' True, Archivo ''b.sauth'' True, Archivo ''c.tmp'' True,
      Carpeta ''cache'' [Archivo ''d.tmp'' True], Archivo ''e.log'' False,
      Archivo ''.acelive'' True]"

definition archivos_demo :: sistema_archivos where
  "archivos_demo p =
     (if p = ''/var/lib/docker/volumes/acestreamengine_demo/_data''
      then Directorio directorio_demo else NoExiste)"

definition directorio_roto :: "entrada list" where
  "directorio_roto =
     [Archivo ''c.tmp'' True, Inexaminable ''enlace'', Archivo ''d.tmp'' True]"

definition archivos_roto :: sistema_archivos where
  "archivos_roto p =
     (if p = ''/var/lib/docker/volumes/acestreamengine_demo/_data''
      then Directorio directorio_roto else NoExiste)"

definition archivos_tres :: sistema_archivos where
  "archivos_tres p =
     (if p = ''/var/lib/docker/volumes/acestreamengine_demo/_data''
      then Directorio [Archivo ''a.acelive'' True, Archivo ''b.sauth'' True,
                       Archivo ''c.tmp'' True]
      else NoExiste)"

text \<open>
  A file whose header has the tracker in its last column, and a line of it that stops
  before that column: the object built from the line has \<open>None\<close> as its tracker.
\<close>

definition cabeceras_tracker_final :: "string list" where
  "cabeceras_tracker_final =
     [''name'', ''title'', ''port'', ''service_access_token'', ''source'', ''host'',
      ''bitrate'', ''tracker'']"

definition fila_sin_tracker :: fila where
  "fila_sin_tracker = [''demo'', ''Demo'', ''8642'', ''12345'', ''http://10.0.0.9/live.ts'',
                       ''10.0.0.5'', ''600000'']"

definition objeto_sin_tracker :: objeto_config where
  "objeto_sin_tracker =
     \<lparr>o_nombre = Some ''demo'', o_titulo = Some ''Demo'', o_puerto = 8642, o_tracker = None,
      o_source = Some ''http://10.0.0.9/live.ts'', o_host = Some ''10.0.0.5'',
      o_bitrate = 600000, o_token = Some ''12345''\<rparr>"

definition respuestas_demo :: "nat \<Rightarrow> respuesta" where
  "respuestas_demo i =
     (if i = 2 then Respuesta 200 (Json (JObj [(''content_id'', JStr ''abc123'')]))
      else if i = 1 then Respuesta 503 NoJson
      else RequestException)"

definition respuestas_vacio :: "nat \<Rightarrow> respuesta" where
  "respuestas_vacio i = Respuesta 200 (Json (JObj [(''content_id'', JStr [])]))"

definition respuestas_caidas :: "nat \<Rightarrow> respuesta" where
  "respuestas_caidas i = RequestException"

definition respuestas_lista :: "nat \<Rightarrow> respuesta" where
  "respuestas_lista i = Respuesta 200 (Json (JArr []))"

definition bib_demo :: biblioteca where
  "bib_demo = \<lparr>b_ip_address = (\<lambda>s. s = ''10.0.0.5''), b_str = (\<lambda>v. ''?'')\<rparr>"

definition entorno_demo :: entorno where
  "entorno_demo =
     \<lparr>e_ps_a = Inr [], e_stop = Inr [], e_rm = Inr [], e_sistema = Linux,
      e_archivos = archivos_demo, e_run = Inr ''0123abcd'', e_ps = Inr ''0123abcd'',
      e_monitor = respuestas_demo\<rparr>"

definition entorno_caido :: entorno where
  "entorno_caido = entorno_demo\<lparr>e_monitor := respuestas_caidas\<rparr>"

definition entornos_demo :: "nat \<Rightarrow> entorno" where
  "entornos_demo k = (if k = 0 then entorno_caido else entorno_demo)"

definition traza_demo :: "accion list" where
  "traza_demo =
     [Validado [], DockerPsA ''demo'', Limpieza ''acestreamengine_demo'' 2,
      DockerRun (construir_comando_docker config_demo), DockerPs ''demo'', Sondeo 3,
      Escritura ''demo'' (JStr ''abc123'')]"

section \<open>The validator\<close>

lemma validar_demo: "validar (\<lambda>x. False) config_demo = []"
  by (simp add: validar_def config_demo_def coincide_nombre_def sin_salto_final_def
      es_alnum_def es_dominio_valido_def etiqueta_valida_def strip_def es_espacio_def
      es_ip_valida_def)

text \<open>
  C5. \<open>validar\<close> reports the port exactly when it is outside 1024..65535, whatever the
  other fields are; and on a record whose other fields are valid (the port is its only
  possible violation) the result for any port \<open>p\<close> is the empty list when \<open>p\<close> is in the
  range and the port violation alone when it is not. So port 80 is always rejected and
  port 8642 with otherwise valid fields is accepted.
\<close>

theorem validar_puerto:
  "(PuertoInvalido \<in> set (validar ip c)) = (puerto c < 1024 \<or> 65535 < puerto c)
   \<and> PuertoInvalido \<in> set (validar ip (c\<lparr>puerto := 80\<rparr>))
   \<and> (set (validar ip c) \<subseteq> {PuertoInvalido} \<longrightarrow>
        (\<forall>p. validar ip (c\<lparr>puerto := p\<rparr>) =
               (if 1024 \<le> p \<and> p \<le> 65535 then [] else [PuertoInvalido])))"
  by (auto simp: validar_def split: if_splits)

theorem validar_puerto_witness:
  "set (validar (\<lambda>x. False) config_demo) \<subseteq> {PuertoInvalido}
   \<and> validar (\<lambda>x. False) (config_demo\<lparr>puerto := 80\<rparr>) = [PuertoInvalido]
   \<and> validar (\<lambda>x. False) (config_demo\<lparr>puerto := 1023\<rparr>) = [PuertoInvalido]
   \<and> validar (\<lambda>x. False) (config_demo\<lparr>puerto := 65536\<rparr>) = [PuertoInvalido]
   \<and> validar (\<lambda>x. False) (config_demo\<lparr>puerto := 8642\<rparr>) = []"
proof -
  have h: "set (validar (\<lambda>x. False) config_demo) \<subseteq> {PuertoInvalido}"
    by (simp add: validar_demo)
  from validar_puerto [of "\<lambda>x. False" config_demo] h
  have "\<forall>p. validar (\<lambda>x. False) (config_demo\<lparr>puerto := p\<rparr>) =
               (if 1024 \<le> p \<and> p \<le> 65535 then [] else [PuertoInvalido])"
    by blast
  then have "validar (\<lambda>x. False) (config_demo\<lparr>puerto := 80\<rparr>) = [PuertoInvalido]"
    and "validar (\<lambda>x. False) (config_demo\<lparr>puerto := 1023\<rparr>) = [PuertoInvalido]"
    and "validar (\<lambda>x. False) (config_demo\<lparr>puerto := 65536\<rparr>) = [PuertoInvalido]"
    and "validar (\<lambda>x. False) (config_demo\<lparr>puerto := 8642\<rparr>) = []"
    by simp_all
  with h show ?thesis by simp
qed

section \<open>The docker command\<close>

lemma comando_posicion_fija:
  "\<forall>i < 51. i \<notin> posiciones_valor \<longrightarrow>
     construir_comando_docker c' ! i = construir_comando_docker c ! i"
  unfolding construir_comando_docker_def posiciones_valor_def
  by (simp add: eval_nat_numeral All_less_Suc)

text \<open>
  C7. The command has 51 words for every record, and two records give the same word at
  every position that is not the position of a value: no flag is left out and the order
  is fixed. (The command is a function of the fields of the record, with no failing
  branch.)
\<close>

theorem comando_estable:
  "length (construir_comando_docker c) = 51
   \<and> length (construir_comando_docker c') = length (construir_comando_docker c)
   \<and> (\<forall>i < 51. i \<notin> posiciones_valor \<longrightarrow>
         construir_comando_docker c' ! i = construir_comando_docker c ! i)"
  using comando_posicion_fija [of c' c] by (simp add: construir_comando_docker_def)

theorem comando_estable_witness:
  "length (construir_comando_docker config_demo) = 51
   \<and> length (construir_comando_docker config_otro) = 51
   \<and> (49::nat) < 51 \<and> 49 \<notin> posiciones_valor
   \<and> construir_comando_docker config_otro ! 49 = construir_comando_docker config_demo ! 49
   \<and> construir_comando_docker config_demo ! 49 = ''--bitrate''"
proof -
  have h: "(49::nat) < 51 \<and> 49 \<notin> posiciones_valor"
    by (simp add: posiciones_valor_def)
  have "construir_comando_docker config_demo ! 49 = ''--bitrate''"
    by (simp add: construir_comando_docker_def)
  with comando_estable [of config_demo config_otro] h show ?thesis by simp
qed

section \<open>The record store\<close>

lemma longitud_cabeceras: "length cabeceras = 9"
  by (simp add: cabeceras_def)

lemma nueve_celdas:
  assumes "length r = 9"
  obtains a b c d e f g h i where "r = [a, b, c, d, e, f, g, h, i]"
proof -
  from assms have "length r = Suc (Suc (Suc (Suc (Suc (Suc (Suc (Suc (Suc 0))))))))"
    by simp
  then show ?thesis
    using that by (auto simp: length_Suc_conv)
qed

lemma fila_a_dict_nueve:
  "fila_a_dict cabeceras [a, b, c, d, e, f, g, h, i] =
     [''name'' \<mapsto> JStr a, ''title'' \<mapsto> JStr b, ''port'' \<mapsto> JStr c,
      ''service_access_token'' \<mapsto> JStr d, ''tracker'' \<mapsto> JStr e, ''source'' \<mapsto> JStr f,
      ''host'' \<mapsto> JStr g, ''bitrate'' \<mapsto> JStr h, ''content_id'' \<mapsto> JStr i]"
  by (simp add: fila_a_dict_def cabeceras_def)

lemma fila_de_evento_leida:
  assumes "length r = 9"
  shows "fila_de_evento s (fila_a_dict cabeceras r) = r"
proof -
  from assms obtain a b c d e f g h i where r: "r = [a, b, c, d, e, f, g, h, i]"
    by (rule nueve_celdas)
  show ?thesis
    unfolding r fila_a_dict_nueve
    by (simp add: fila_de_evento_def cabeceras_def texto_celda_def)
qed

lemma fila_de_evento_resuelta:
  assumes "length r = 9"
  shows "fila_de_evento s ((fila_a_dict cabeceras r)(''content_id'' \<mapsto> cid))
         = r[8 := texto_celda s cid]"
proof -
  from assms obtain a b c d e f g h i where r: "r = [a, b, c, d, e, f, g, h, i]"
    by (rule nueve_celdas)
  show ?thesis
    unfolding r fila_a_dict_nueve
    by (simp add: fila_de_evento_def cabeceras_def texto_celda_def)
qed

lemma nombre_de_fila:
  assumes "length r = 9"
  shows "fila_a_dict cabeceras r ''name'' = Some (JStr (r ! 0))"
proof -
  from assms obtain a b c d e f g h i where r: "r = [a, b, c, d, e, f, g, h, i]"
    by (rule nueve_celdas)
  show ?thesis
    unfolding r fila_a_dict_nueve by simp
qed

lemma escribir_eventos_bien_formado:
  "list_all (\<lambda>r. length r = 9) filas \<Longrightarrow>
     escribir_eventos s nom cid (map (fila_a_dict cabeceras) filas) escrito
     = (escrito @ map (fila_actualizada nom (texto_celda s cid)) filas, None)"
proof (induction filas arbitrary: escrito)
  case Nil
  then show ?case by simp
next
  case (Cons r filas)
  then have r: "length r = 9" and resto: "list_all (\<lambda>r. length r = 9) filas"
    by simp_all
  show ?case
    using Cons.IH [OF resto]
    by (simp add: nombre_de_fila [OF r] fila_de_evento_leida [OF r]
        fila_de_evento_resuelta [OF r] fila_actualizada_def)
qed

lemma leer_bien_formado:
  "list_all (\<lambda>r. length r = 9) filas \<Longrightarrow>
     leer_eventos_csv (cabeceras # filas) = map (fila_a_dict cabeceras) filas"
proof -
  assume "list_all (\<lambda>r. length r = 9) filas"
  then have "filter (\<lambda>r. r \<noteq> []) filas = filas"
    by (induction filas) auto
  then show ?thesis by (simp add: leer_eventos_csv_def)
qed

lemma actualizar_bien_formado:
  assumes "bien_formado f"
  shows "actualizar_content_id s nom cid f
         = (hd f # map (fila_actualizada nom (texto_celda s cid)) (tl f), None)"
proof -
  from assms obtain filas where f: "f = cabeceras # filas"
    and filas: "list_all (\<lambda>r. length r = 9) filas"
    by (auto simp: bien_formado_def longitud_cabeceras split: list.splits)
  show ?thesis
    by (simp add: f actualizar_content_id_def leer_bien_formado [OF filas]
        escribir_eventos_bien_formado [OF filas])
qed

lemma bien_formado_inicial: "bien_formado (inicializar_csv None)"
  by (simp add: inicializar_csv_def bien_formado_def)

lemma bien_formado_guardar:
  "bien_formado f \<Longrightarrow> guardar_evento ev f = Inr f' \<Longrightarrow> bien_formado f'"
  by (auto simp: guardar_evento_def bien_formado_def split: if_splits list.splits)

lemma longitud_fila_actualizada: "length (fila_actualizada nom celda r) = length r"
  by (simp add: fila_actualizada_def)

lemma bien_formado_actualizar:
  assumes "bien_formado f"
  shows "bien_formado (fst (actualizar_content_id s nom cid f))"
  using assms
  by (auto simp: actualizar_bien_formado bien_formado_def list_all_iff
      longitud_fila_actualizada split: list.splits)

lemma actualizar_filas:
  assumes "list_all (\<lambda>r. length r = 9) filas"
  shows "actualizar_content_id s nom cid (cabeceras # filas)
         = (cabeceras # map (fila_actualizada nom (texto_celda s cid)) filas, None)"
  using actualizar_bien_formado [of "cabeceras # filas" s nom cid] assms
  by (simp add: bien_formado_def longitud_cabeceras)

text \<open>
  C3. On a well-formed store a commit does not fail and rewrites the file so that the
  header and the number of rows stay; a row with another name is written back as it
  was, a row with the given name is written back with only the cell of \<open>content_id\<close>
  replaced, and so every cell of every row other than a cell of \<open>content_id\<close> is
  unchanged.
\<close>

theorem actualizar_solo_content_id:
  assumes "bien_formado f"
  shows "snd (actualizar_content_id s nom cid f) = None
     \<and> length (fst (actualizar_content_id s nom cid f)) = length f
     \<and> fst (actualizar_content_id s nom cid f) ! 0 = f ! 0
     \<and> (\<forall>i. 0 < i \<and> i < length f \<longrightarrow>
          (f ! i ! 0 \<noteq> nom \<longrightarrow> fst (actualizar_content_id s nom cid f) ! i = f ! i)
        \<and> (f ! i ! 0 = nom \<longrightarrow>
             fst (actualizar_content_id s nom cid f) ! i = (f ! i)[8 := texto_celda s cid])
        \<and> (\<forall>j. j \<noteq> 8 \<longrightarrow> fst (actualizar_content_id s nom cid f) ! i ! j = f ! i ! j))"
proof -
  let ?g = "fila_actualizada nom (texto_celda s cid)"
  from assms obtain filas where f: "f = cabeceras # filas"
    and filas: "list_all (\<lambda>r. length r = 9) filas"
    by (auto simp: bien_formado_def longitud_cabeceras split: list.splits)
  note res = actualizar_filas [OF filas, of s nom cid]
  show ?thesis
    unfolding f res fst_conv snd_conv
    by (auto simp: fila_actualizada_def nth_Cons')
qed

lemma almacen_demo_bien_formado: "bien_formado almacen_demo"
  by (simp add: almacen_demo_def bien_formado_def cabeceras_def fila_demo_def fila_otra_def)

theorem actualizar_solo_content_id_witness:
  "bien_formado almacen_demo
   \<and> actualizar_content_id (\<lambda>v. ''?'') ''demo'' (JStr ''abc123'') almacen_demo
     = ([cabeceras, fila_demo[8 := ''abc123''], fila_otra], None)"
proof -
  let ?r = "actualizar_content_id (\<lambda>v. ''?'') ''demo'' (JStr ''abc123'') almacen_demo"
  note h = almacen_demo_bien_formado
  from actualizar_solo_content_id [OF h, of "\<lambda>v. ''?''" "''demo''" "JStr ''abc123''"]
  have s: "snd ?r = None" and l: "length (fst ?r) = 3" and c: "fst ?r ! 0 = cabeceras"
    and filas: "\<And>i. 0 < i \<Longrightarrow> i < 3 \<Longrightarrow>
          (almacen_demo ! i ! 0 \<noteq> ''demo'' \<longrightarrow> fst ?r ! i = almacen_demo ! i)
        \<and> (almacen_demo ! i ! 0 = ''demo'' \<longrightarrow>
             fst ?r ! i = (almacen_demo ! i)[8 := texto_celda (\<lambda>v. ''?'') (JStr ''abc123'')])"
    by (simp_all add: almacen_demo_def)
  from filas [of 1] have f1: "fst ?r ! 1 = fila_demo[8 := ''abc123'']"
    by (simp add: almacen_demo_def fila_demo_def texto_celda_def)
  from filas [of 2] have f2: "fst ?r ! 2 = fila_otra"
    by (simp add: almacen_demo_def fila_otra_def)
  from l obtain a b c' where abc: "fst ?r = [a, b, c']"
    by (auto simp: length_Suc_conv eval_nat_numeral)
  with c f1 f2 have "fst ?r = [cabeceras, fila_demo[8 := ''abc123''], fila_otra]"
    by simp
  with s have "?r = ([cabeceras, fila_demo[8 := ''abc123''], fila_otra], None)"
    by (cases ?r) simp
  with h show ?thesis by simp
qed

text \<open>
  C10. Names are not kept unique. Appending a row of nine cells to a well-formed store
  succeeds also when a row of the store has the same name already; the store then has at
  least two rows with that name, and a commit for the name keeps all of them and writes
  the new content id into every one.
\<close>

theorem nombres_repetidos:
  assumes "bien_formado f" and "length ev = 9"
    and "ev ! 0 \<in> set (map (\<lambda>r. r ! 0) (tl f))"
  shows "guardar_evento ev f = Inr (f @ [ev])
     \<and> bien_formado (f @ [ev])
     \<and> 2 \<le> length (filter (\<lambda>r. r ! 0 = ev ! 0) (tl (f @ [ev])))
     \<and> length (filter (\<lambda>r. r ! 0 = ev ! 0) (tl (fst (actualizar_content_id s (ev ! 0) cid (f @ [ev])))))
       = length (filter (\<lambda>r. r ! 0 = ev ! 0) (tl (f @ [ev])))
     \<and> (\<forall>r \<in> set (tl (fst (actualizar_content_id s (ev ! 0) cid (f @ [ev])))).
          r ! 0 = ev ! 0 \<longrightarrow> r ! 8 = texto_celda s cid)"
proof -
  let ?g = "fila_actualizada (ev ! 0) (texto_celda s cid)"
  from assms(1) obtain filas where f: "f = cabeceras # filas"
    and filas: "list_all (\<lambda>r. length r = 9) filas"
    by (auto simp: bien_formado_def longitud_cabeceras split: list.splits)
  from filas assms(2) have todas: "list_all (\<lambda>r. length r = 9) (filas @ [ev])"
    by simp
  have guardado: "guardar_evento ev f = Inr (f @ [ev])"
    using assms(2) by (simp add: guardar_evento_def longitud_cabeceras)
  have bien: "bien_formado (f @ [ev])"
    using todas by (simp add: f bien_formado_def longitud_cabeceras)
  from assms(3) obtain r where "r \<in> set filas" and "r ! 0 = ev ! 0"
    by (auto simp: f)
  then have "filter (\<lambda>r. r ! 0 = ev ! 0) filas \<noteq> []"
    by (auto simp: filter_empty_conv)
  then have "1 \<le> length (filter (\<lambda>r. r ! 0 = ev ! 0) filas)"
    by (cases "filter (\<lambda>r. r ! 0 = ev ! 0) filas") simp_all
  then have dos: "2 \<le> length (filter (\<lambda>r. r ! 0 = ev ! 0) (tl (f @ [ev])))"
    by (simp add: f)
  have res: "fst (actualizar_content_id s (ev ! 0) cid (cabeceras # filas @ [ev]))
             = cabeceras # map ?g (filas @ [ev])"
    using actualizar_filas [OF todas, of s "ev ! 0" cid] by simp
  have nombre: "?g r ! 0 = r ! 0" for r
    by (simp add: fila_actualizada_def)
  have "filter (\<lambda>r. r ! 0 = ev ! 0) (map ?g xs) = map ?g (filter (\<lambda>r. r ! 0 = ev ! 0) xs)" for xs
    by (induction xs) (simp_all add: nombre)
  then have cuenta: "length (filter (\<lambda>r. r ! 0 = ev ! 0) (tl (fst (actualizar_content_id s (ev ! 0) cid (f @ [ev])))))
       = length (filter (\<lambda>r. r ! 0 = ev ! 0) (tl (f @ [ev])))"
    by (simp add: f res nombre)
  have celda: "\<forall>r \<in> set (tl (fst (actualizar_content_id s (ev ! 0) cid (f @ [ev])))).
          r ! 0 = ev ! 0 \<longrightarrow> r ! 8 = texto_celda s cid"
  proof
    fix r' assume "r' \<in> set (tl (fst (actualizar_content_id s (ev ! 0) cid (f @ [ev]))))"
    then obtain r where r: "r \<in> set (filas @ [ev])" and r': "r' = ?g r"
      by (auto simp: f res)
    from r todas have "length r = 9"
      by (auto simp: list_all_iff)
    then show "r' ! 0 = ev ! 0 \<longrightarrow> r' ! 8 = texto_celda s cid"
      by (simp add: r' fila_actualizada_def)
  qed
  from guardado bien dos cuenta celda show ?thesis by blast
qed

theorem nombres_repetidos_witness:
  "bien_formado almacen_demo \<and> length fila_repetida = 9
   \<and> fila_repetida ! 0 \<in> set (map (\<lambda>r. r ! 0) (tl almacen_demo))
   \<and> guardar_evento fila_repetida almacen_demo = Inr (almacen_demo @ [fila_repetida])
   \<and> actualizar_content_id (\<lambda>v. ''?'') ''demo'' (JStr ''abc123'') (almacen_demo @ [fila_repetida])
     = ([cabeceras, fila_demo[8 := ''abc123''], fila_otra, fila_repetida[8 := ''abc123'']], None)"
proof -
  have h1: "bien_formado almacen_demo" by (rule almacen_demo_bien_formado)
  have h2: "length fila_repetida = 9" by (simp add: fila_repetida_def)
  have h3: "fila_repetida ! 0 \<in> set (map (\<lambda>r. r ! 0) (tl almacen_demo))"
    by (simp add: almacen_demo_def fila_repetida_def fila_demo_def)
  from nombres_repetidos [OF h1 h2 h3, of "\<lambda>v. ''?''" "JStr ''abc123''"]
  have g: "guardar_evento fila_repetida almacen_demo = Inr (almacen_demo @ [fila_repetida])"
    and b: "bien_formado (almacen_demo @ [fila_repetida])"
    by simp_all
  have "actualizar_content_id (\<lambda>v. ''?'') ''demo'' (JStr ''abc123'') (almacen_demo @ [fila_repetida])
     = ([cabeceras, fila_demo[8 := ''abc123''], fila_otra, fila_repetida[8 := ''abc123'']], None)"
    using actualizar_bien_formado [OF b, of "\<lambda>v. ''?''" "''demo''" "JStr ''abc123''"]
    by (simp add: almacen_demo_def fila_actualizada_def texto_celda_def fila_demo_def
        fila_otra_def fila_repetida_def)
  with h1 h2 h3 g show ?thesis by simp
qed

section \<open>The cleaning of a volume\<close>

lemma limpiar_bucle_filtro:
  "list_all examinable es \<Longrightarrow>
     limpiar_bucle es n
     = (Inr (n + length (filter se_borra es)), filter (\<lambda>e. \<not> se_borra e) es)"
  by (induction es n rule: limpiar_bucle.induct) (simp_all add: se_borra_def examinable_def)

lemma limpiar_bucle_interrumpido:
  "list_all examinable antes \<Longrightarrow>
     limpiar_bucle (antes @ Inexaminable name # despues) n
     = (Inl OSError, filter (\<lambda>e. \<not> se_borra e) antes @ Inexaminable name # despues)"
  by (induction antes n rule: limpiar_bucle.induct) (simp_all add: se_borra_def examinable_def)

lemma sufijos_ejemplo:
  "sufijo ''a.acelive'' = ''.acelive''" "sufijo ''b.sauth'' = ''.sauth''"
  "sufijo ''c.tmp'' = ''.tmp''" "sufijo ''.acelive'' = []" "sufijo ''e.log'' = ''.log''"
  "sufijo ''d.tmp'' = ''.tmp''"
  by (simp_all add: sufijo_def rfind_def)

lemma limpiar_sin_directorio:
  "limpiar_archivos_temporales OtroSistema fs v = (0, fs)"
  "ruta_base so v = Some p \<Longrightarrow> fs p = NoDirectorio \<Longrightarrow>
     limpiar_archivos_temporales so fs v = (0, fs)"
  by (simp_all add: limpiar_archivos_temporales_def ruta_base_def)

text \<open>
  C8, as amended. Where the system resolves the volume to a path: if nothing is at the
  path the cleaning returns 0 and changes nothing. If a directory is there and every
  entry of it can be examined, it returns the number of entries that are regular files
  with a suffix outside \<open>.acelive\<close>, \<open>.sauth\<close> and whose deletion succeeds, and exactly
  those entries are gone from the directory afterwards: subdirectories stay as they are,
  with their contents, and so do the files with a permitted suffix and the files whose
  deletion fails. If examining an entry raises, the scan stops at that entry: the
  deletions made among the entries before it stay, that entry and every entry after it
  are left as they are, and the result is 0. A directory with \<open>a.acelive\<close>, \<open>b.sauth\<close> and
  a deletable \<open>c.tmp\<close> loses \<open>c.tmp\<close> alone and the count is 1.
\<close>

theorem limpiar_correcto:
  assumes "ruta_base so v = Some p"
  shows "(fs p = NoExiste \<longrightarrow> limpiar_archivos_temporales so fs v = (0, fs))
     \<and> (\<forall>es. fs p = Directorio es \<and> list_all examinable es \<longrightarrow>
          limpiar_archivos_temporales so fs v
          = (length (filter se_borra es), fs(p := Directorio (filter (\<lambda>e. \<not> se_borra e) es)))
          \<and> (\<forall>name hijos. Carpeta name hijos \<in> set es \<longrightarrow>
                Carpeta name hijos \<in> set (filter (\<lambda>e. \<not> se_borra e) es))
          \<and> (\<forall>name b. Archivo name b \<in> set es \<and> sufijo name \<in> extensiones_permitidas \<longrightarrow>
                Archivo name b \<in> set (filter (\<lambda>e. \<not> se_borra e) es)))
     \<and> (\<forall>antes name despues.
          fs p = Directorio (antes @ Inexaminable name # despues) \<and> list_all examinable antes \<longrightarrow>
          limpiar_archivos_temporales so fs v
          = (0, fs(p := Directorio (filter (\<lambda>e. \<not> se_borra e) antes
                                     @ Inexaminable name # despues))))
     \<and> (\<forall>a b. fs p = Directorio [Archivo ''a.acelive'' a, Archivo ''b.sauth'' b,
                                   Archivo ''c.tmp'' True] \<longrightarrow>
          limpiar_archivos_temporales so fs v
          = (1, fs(p := Directorio [Archivo ''a.acelive'' a, Archivo ''b.sauth'' b])))"
  using assms
  by (auto simp: limpiar_archivos_temporales_def limpiar_bucle_filtro
      limpiar_bucle_interrumpido se_borra_def sufijos_ejemplo extensiones_permitidas_def)

theorem limpiar_correcto_witness:
  "ruta_base Linux ''acestreamengine_demo''
     = Some ''/var/lib/docker/volumes/acestreamengine_demo/_data''
   \<and> limpiar_archivos_temporales Linux archivos_tres ''acestreamengine_demo''
     = (1, archivos_tres(''/var/lib/docker/volumes/acestreamengine_demo/_data'' :=
             Directorio [Archivo ''a.acelive'' True, Archivo ''b.sauth'' True]))
   \<and> limpiar_archivos_temporales Linux archivos_demo ''acestreamengine_demo''
     = (2, archivos_demo(''/var/lib/docker/volumes/acestreamengine_demo/_data'' :=
             Directorio [Archivo ''a.acelive'' True, Archivo ''b.sauth'' True,
                         Carpeta ''cache'' [Archivo ''d.tmp'' True], Archivo ''e.log'' False]))
   \<and> limpiar_archivos_temporales Linux archivos_demo ''acestreamengine_otro''
     = (0, archivos_demo)
   \<and> limpiar_archivos_temporales Linux archivos_roto ''acestreamengine_demo''
     = (0, archivos_roto(''/var/lib/docker/volumes/acestreamengine_demo/_data'' :=
             Directorio [Inexaminable ''enlace'', Archivo ''d.tmp'' True]))"
proof -
  have h: "ruta_base Linux ''acestreamengine_demo''
     = Some ''/var/lib/docker/volumes/acestreamengine_demo/_data''"
    by (simp add: ruta_base_def)
  have h': "ruta_base Linux ''acestreamengine_otro''
     = Some ''/var/lib/docker/volumes/acestreamengine_otro/_data''"
    by (simp add: ruta_base_def)
  have d: "archivos_demo ''/var/lib/docker/volumes/acestreamengine_demo/_data''
           = Directorio directorio_demo \<and> list_all examinable directorio_demo"
    by (simp add: archivos_demo_def directorio_demo_def examinable_def)
  have n: "archivos_demo ''/var/lib/docker/volumes/acestreamengine_otro/_data'' = NoExiste"
    by (simp add: archivos_demo_def)
  have t: "archivos_tres ''/var/lib/docker/volumes/acestreamengine_demo/_data''
           = Directorio [Archivo ''a.acelive'' True, Archivo ''b.sauth'' True,
                         Archivo ''c.tmp'' True]"
    by (simp add: archivos_tres_def)
  have r: "archivos_roto ''/var/lib/docker/volumes/acestreamengine_demo/_data''
           = Directorio ([Archivo ''c.tmp'' True] @ Inexaminable ''enlace''
                          # [Archivo ''d.tmp'' True])
           \<and> list_all examinable [Archivo ''c.tmp'' True]"
    by (simp add: archivos_roto_def directorio_roto_def examinable_def)
  from limpiar_correcto [OF h, of archivos_tres] t
  have tres: "limpiar_archivos_temporales Linux archivos_tres ''acestreamengine_demo''
     = (1, archivos_tres(''/var/lib/docker/volumes/acestreamengine_demo/_data'' :=
             Directorio [Archivo ''a.acelive'' True, Archivo ''b.sauth'' True]))"
    by blast
  from limpiar_correcto [OF h, of archivos_roto] r
  have "limpiar_archivos_temporales Linux archivos_roto ''acestreamengine_demo''
     = (0, archivos_roto(''/var/lib/docker/volumes/acestreamengine_demo/_data'' :=
             Directorio (filter (\<lambda>e. \<not> se_borra e) [Archivo ''c.tmp'' True]
                         @ Inexaminable ''enlace'' # [Archivo ''d.tmp'' True])))"
    by blast
  then have roto: "limpiar_archivos_temporales Linux archivos_roto ''acestreamengine_demo''
     = (0, archivos_roto(''/var/lib/docker/volumes/acestreamengine_demo/_data'' :=
             Directorio [Inexaminable ''enlace'', Archivo ''d.tmp'' True]))"
    by (simp add: se_borra_def sufijos_ejemplo extensiones_permitidas_def)
  from limpiar_correcto [OF h, of archivos_demo] d
  have "limpiar_archivos_temporales Linux archivos_demo ''acestreamengine_demo''
     = (length (filter se_borra directorio_demo),
        archivos_demo(''/var/lib/docker/volumes/acestreamengine_demo/_data'' :=
          Directorio (filter (\<lambda>e. \<not> se_borra e) directorio_demo)))"
    by blast
  moreover from limpiar_correcto [OF h', of archivos_demo] n
  have "limpiar_archivos_temporales Linux archivos_demo ''acestreamengine_otro''
     = (0, archivos_demo)"
    by simp
  ultimately show ?thesis
    using h tres roto by (simp add: directorio_demo_def se_borra_def sufijos_ejemplo
        extensiones_permitidas_def)
qed

text \<open>
  The claim C8 as stated fails on a directory with an entry that cannot be examined
  between two deletable \<open>.tmp\<close> files: two files are to be deleted and counted; the first
  is deleted, the second is left, and the result is 0.
\<close>

theorem limpiar_interrumpido_contraejemplo:
  "length (filter se_borra directorio_roto) = 2
   \<and> limpiar_archivos_temporales Linux archivos_roto ''acestreamengine_demo''
     = (0, archivos_roto(''/var/lib/docker/volumes/acestreamengine_demo/_data'' :=
             Directorio [Inexaminable ''enlace'', Archivo ''d.tmp'' True]))"
  by (simp add: limpiar_archivos_temporales_def ruta_base_def archivos_roto_def
      directorio_roto_def se_borra_def sufijos_ejemplo extensiones_permitidas_def)

section \<open>The poller\<close>

lemma intentar_sigue:
  "cuerpo_esperado r \<Longrightarrow> \<not> respuesta_util r \<Longrightarrow> intentar r = None"
  by (auto simp: intentar_def cuerpo_esperado_def respuesta_util_def Let_def
      split: respuesta.splits cuerpo.splits json.splits)

lemma intentar_devuelve:
  "respuesta_util r \<Longrightarrow> intentar r = Some (Inr (informe r))"
  by (auto simp: intentar_def respuesta_util_def informe_def Let_def
      split: respuesta.splits cuerpo.splits json.splits)

lemma bucle_monitor_agotado:
  "(\<forall>i. j \<le> i \<and> i < j + n \<longrightarrow> intentar (resp i) = None) \<Longrightarrow>
     bucle_monitor resp j n = (Inl RuntimeError, j + n)"
  by (induction n arbitrary: j) simp_all

lemma bucle_monitor_exito:
  "k < n \<Longrightarrow> (\<forall>i. j \<le> i \<and> i < j + k \<longrightarrow> intentar (resp i) = None) \<Longrightarrow>
   intentar (resp (j + k)) = Some r \<Longrightarrow>
     bucle_monitor resp j n = (r, Suc (j + k))"
proof (induction n arbitrary: j k)
  case 0
  then show ?case by simp
next
  case (Suc n)
  show ?case
  proof (cases k)
    case 0
    with Suc.prems show ?thesis by simp
  next
    case (Suc k')
    with Suc.prems have "intentar (resp j) = None" by simp
    moreover from Suc Suc.prems
    have "bucle_monitor resp (Suc j) n = (r, Suc (Suc j + k'))"
      by (intro Suc.IH) auto
    ultimately show ?thesis using Suc by simp
  qed
qed

lemma bucle_monitor_cota: "snd (bucle_monitor resp j n) \<le> j + n"
proof (induction n arbitrary: j)
  case 0
  then show ?case by simp
next
  case (Suc n)
  from Suc.IH [of "Suc j"] show ?case
    by (simp split: option.splits)
qed

text \<open>
  C2, as amended. For answers among which no status 200 carries a decoded body that is
  not an object: the poller returns at the first attempt whose answer has status 200, a
  body that parses and a \<open>content_id\<close> that is not empty and not the sentinel, with the
  \<open>content_id\<close> and the \<open>download_hash\<close> of that answer and after exactly that many
  requests; when none of the first \<open>intentos\<close> answers is such, it raises \<open>RuntimeError\<close>
  after exactly \<open>intentos\<close> requests. And for any answers at all, with no condition on
  their bodies, it never makes more than \<open>intentos\<close> requests.
\<close>

theorem obtener_monitor_correcto:
  "((\<forall>i < nat intentos. cuerpo_esperado (respuestas i)) \<longrightarrow>
      (\<forall>k < nat intentos.
         respuesta_util (respuestas k) \<and> (\<forall>i < k. \<not> respuesta_util (respuestas i)) \<longrightarrow>
         obtener_monitor respuestas cid p intentos = (Inr (informe (respuestas k)), Suc k))
      \<and> ((\<forall>i < nat intentos. \<not> respuesta_util (respuestas i)) \<longrightarrow>
           obtener_monitor respuestas cid p intentos = (Inl RuntimeError, nat intentos)))
   \<and> snd (obtener_monitor respuestas cid p intentos) \<le> nat intentos"
proof (intro conjI allI impI)
  fix k
  assume e: "\<forall>i < nat intentos. cuerpo_esperado (respuestas i)"
    and k: "k < nat intentos"
    and u: "respuesta_util (respuestas k) \<and> (\<forall>i < k. \<not> respuesta_util (respuestas i))"
  from k u e have "\<forall>i. 0 \<le> i \<and> i < 0 + k \<longrightarrow> intentar (respuestas i) = None"
    by (auto intro!: intentar_sigue)
  moreover from u have "intentar (respuestas (0 + k)) = Some (Inr (informe (respuestas k)))"
    by (simp add: intentar_devuelve)
  ultimately show "obtener_monitor respuestas cid p intentos
                   = (Inr (informe (respuestas k)), Suc k)"
    using bucle_monitor_exito [OF k, of 0 respuestas] by (simp add: obtener_monitor_def)
next
  assume e: "\<forall>i < nat intentos. cuerpo_esperado (respuestas i)"
    and "\<forall>i < nat intentos. \<not> respuesta_util (respuestas i)"
  then have "\<forall>i. 0 \<le> i \<and> i < 0 + nat intentos \<longrightarrow> intentar (respuestas i) = None"
    by (auto intro!: intentar_sigue)
  then show "obtener_monitor respuestas cid p intentos = (Inl RuntimeError, nat intentos)"
    using bucle_monitor_agotado [of 0 "nat intentos" respuestas]
    by (simp add: obtener_monitor_def)
next
  show "snd (obtener_monitor respuestas cid p intentos) \<le> nat intentos"
    using bucle_monitor_cota [of respuestas 0 "nat intentos"] by (simp add: obtener_monitor_def)
qed

theorem obtener_monitor_correcto_witness:
  "obtener_monitor respuestas_demo ''c1'' 8642 10
     = (Inr [(''content_id'', JStr ''abc123''), (''download_hash'', JNull)], 3)
   \<and> obtener_monitor respuestas_caidas ''c1'' 8642 10 = (Inl RuntimeError, 10)
   \<and> \<not> cuerpo_esperado (respuestas_lista 0)
   \<and> snd (obtener_monitor respuestas_lista ''c1'' 8642 10) \<le> 10"
proof -
  have h: "\<forall>i < nat 10. cuerpo_esperado (respuestas_demo i)"
    by (simp add: respuestas_demo_def cuerpo_esperado_def)
  have k: "(2::nat) < nat 10" by simp
  have u: "respuesta_util (respuestas_demo 2)
           \<and> (\<forall>i < 2. \<not> respuesta_util (respuestas_demo i))"
    by (simp add: respuestas_demo_def respuesta_util_def dict_get_def dict_get_defecto_def
        no_encontrado_def)
  have i: "informe (respuestas_demo 2)
           = [(''content_id'', JStr ''abc123''), (''download_hash'', JNull)]"
    by (simp add: respuestas_demo_def informe_def dict_get_def dict_get_defecto_def)
  from obtener_monitor_correcto [of 10 respuestas_demo "''c1''" 8642] h k u
  have "obtener_monitor respuestas_demo ''c1'' 8642 10
        = (Inr (informe (respuestas_demo 2)), Suc 2)"
    by blast
  with i have a: "obtener_monitor respuestas_demo ''c1'' 8642 10
     = (Inr [(''content_id'', JStr ''abc123''), (''download_hash'', JNull)], 3)"
    by simp
  have h': "\<forall>i < nat 10. cuerpo_esperado (respuestas_caidas i)"
    by (simp add: respuestas_caidas_def cuerpo_esperado_def)
  have n: "\<forall>i < nat 10. \<not> respuesta_util (respuestas_caidas i)"
    by (simp add: respuestas_caidas_def respuesta_util_def)
  from obtener_monitor_correcto [of 10 respuestas_caidas "''c1''" 8642] h' n
  have c: "obtener_monitor respuestas_caidas ''c1'' 8642 10 = (Inl RuntimeError, nat 10)"
    by blast
  have l: "\<not> cuerpo_esperado (respuestas_lista 0)"
    by (simp add: respuestas_lista_def cuerpo_esperado_def)
  from obtener_monitor_correcto [of 10 respuestas_lista "''c1''" 8642]
  have "snd (obtener_monitor respuestas_lista ''c1'' 8642 10) \<le> nat 10"
    by blast
  with a c l show ?thesis by simp
qed

text \<open>
  The claim C2 as stated fails where \<open>content_id\<close> is present and empty: the first
  answer is usable in the words of the claim, and the poller makes all ten requests and
  raises.
\<close>

theorem obtener_monitor_content_id_vacio:
  "respuesta_util_spec (respuestas_vacio 0)
   \<and> obtener_monitor respuestas_vacio ''c1'' 8642 10 = (Inl RuntimeError, 10)"
proof -
  have "respuesta_util_spec (respuestas_vacio 0)"
    by (simp add: respuesta_util_spec_def respuestas_vacio_def dict_get_def
        dict_get_defecto_def no_encontrado_def)
  moreover have "\<forall>i. 0 \<le> i \<and> i < 0 + 10 \<longrightarrow> intentar (respuestas_vacio i) = None"
    by (simp add: intentar_def respuestas_vacio_def dict_get_def dict_get_defecto_def)
  then have "obtener_monitor respuestas_vacio ''c1'' 8642 10 = (Inl RuntimeError, 10)"
    using bucle_monitor_agotado [of 0 10 respuestas_vacio] by (simp add: obtener_monitor_def)
  ultimately show ?thesis by simp
qed

text \<open>
  A status 200 whose body decodes to a list: \<open>AttributeError\<close> leaves the poller at the
  first request.
\<close>

lemma obtener_monitor_cuerpo_no_objeto:
  "obtener_monitor respuestas_lista ''c1'' 8642 10 = (Inl AttributeError, 1)"
proof -
  have "intentar (respuestas_lista (0 + 0)) = Some (Inl AttributeError)"
    by (simp add: intentar_def respuestas_lista_def)
  then show ?thesis
    using bucle_monitor_exito [of 0 10 0 respuestas_lista "Inl AttributeError"]
    by (simp add: obtener_monitor_def)
qed

section \<open>Rows as the engine reads them\<close>

lemma fold_none_fuera:
  "k \<notin> set ks \<Longrightarrow> fold (\<lambda>k d. d(k \<mapsto> c)) ks m k = m k"
  by (induction ks arbitrary: m) auto

lemma fold_none_dentro:
  "k \<in> set ks \<Longrightarrow> fold (\<lambda>k d. d(k \<mapsto> c)) ks m k = Some c"
proof (induction ks arbitrary: m)
  case Nil
  then show ?case by simp
next
  case (Cons a ks)
  let ?F = "\<lambda>k d. d(k \<mapsto> c)"
  have paso: "fold ?F (a # ks) m = fold ?F ks (m(a \<mapsto> c))"
    by (simp only: fold_simps comp_apply)
  show ?case
  proof (cases "k \<in> set ks")
    case True
    then show ?thesis unfolding paso by (rule Cons.IH)
  next
    case False
    with Cons.prems have "k = a" by simp
    moreover have "fold ?F ks (m(a \<mapsto> c)) k = (m(a \<mapsto> c)) k"
      using False by (rule fold_none_fuera)
    ultimately show ?thesis unfolding paso by (simp only: fun_upd_same)
  qed
qed

lemma fold_zip_fuera:
  "k \<notin> fst ` set kvs \<Longrightarrow> fold (\<lambda>(k, v) d. d(k \<mapsto> JStr v)) kvs m k = m k"
  by (induction kvs arbitrary: m) auto

lemma fold_zip_dentro:
  "distinct (map fst kvs) \<Longrightarrow> (k, v) \<in> set kvs \<Longrightarrow>
     fold (\<lambda>(k, v) d. d(k \<mapsto> JStr v)) kvs m k = Some (JStr v)"
proof (induction kvs arbitrary: m)
  case Nil
  then show ?case by simp
next
  case (Cons a kvs)
  let ?F = "\<lambda>(k, v) d. d(k \<mapsto> JStr v)"
  have paso: "fold ?F (a # kvs) m = fold ?F kvs (m(fst a \<mapsto> JStr (snd a)))"
    by (simp only: fold_simps comp_apply split_def)
  show ?case
  proof (cases "(k, v) = a")
    case True
    with Cons.prems have "k \<notin> fst ` set kvs" by force
    then have "fold ?F kvs (m(k \<mapsto> JStr v)) k = (m(k \<mapsto> JStr v)) k"
      by (rule fold_zip_fuera)
    with True show ?thesis unfolding paso by (auto simp only: fun_upd_same fst_conv snd_conv)
  next
    case False
    with Cons.prems have "distinct (map fst kvs)" and "(k, v) \<in> set kvs" by auto
    then show ?thesis unfolding paso by (rule Cons.IH)
  qed
qed

lemma fila_a_dict_nth:
  assumes "distinct ks" and "i < length ks"
  shows "fila_a_dict ks r (ks ! i) = Some (if i < length r then JStr (r ! i) else JNull)"
proof (cases "i < length r")
  case True
  have "ks ! i \<in> set (take (length r) ks)"
    using True assms(2) by (auto simp: in_set_conv_nth intro!: exI [of _ i])
  moreover from assms(1) have "set (take (length r) ks) \<inter> set (drop (length r) ks) = {}"
    by (metis append_take_drop_id distinct_append)
  ultimately have fuera: "ks ! i \<notin> set (drop (length r) ks)"
    by blast
  have "(ks ! i, r ! i) \<in> set (zip ks r)"
    using True assms(2) by (auto simp: set_zip)
  moreover have "distinct (map fst (zip ks r))"
    using assms(1) by (simp add: distinct_take map_fst_zip_take)
  ultimately have "fold (\<lambda>(k, v) d. d(k \<mapsto> JStr v)) (zip ks r) Map.empty (ks ! i)
                   = Some (JStr (r ! i))"
    by (rule fold_zip_dentro [rotated])
  with fuera True show ?thesis
    by (simp add: fila_a_dict_def fold_none_fuera)
next
  case False
  then have "ks ! i \<in> set (drop (length r) ks)"
    using assms(2) by (auto simp: in_set_conv_nth intro!: exI [of _ "i - length r"])
  with False show ?thesis
    by (simp add: fila_a_dict_def fold_none_dentro)
qed


lemma campos_de_fila:
  "fila_a_dict cabeceras r ''name'' = Some (celda_de r 0)"
  "fila_a_dict cabeceras r ''title'' = Some (celda_de r 1)"
  "fila_a_dict cabeceras r ''port'' = Some (celda_de r 2)"
  "fila_a_dict cabeceras r ''service_access_token'' = Some (celda_de r 3)"
  "fila_a_dict cabeceras r ''tracker'' = Some (celda_de r 4)"
  "fila_a_dict cabeceras r ''source'' = Some (celda_de r 5)"
  "fila_a_dict cabeceras r ''host'' = Some (celda_de r 6)"
  "fila_a_dict cabeceras r ''bitrate'' = Some (celda_de r 7)"
  "fila_a_dict cabeceras r ''content_id'' = Some (celda_de r 8)"
proof -
  have d: "distinct cabeceras" by (simp add: cabeceras_def)
  show "fila_a_dict cabeceras r ''name'' = Some (celda_de r 0)"
    using fila_a_dict_nth [OF d, of 0 r] by (simp add: cabeceras_def celda_de_def)
  show "fila_a_dict cabeceras r ''title'' = Some (celda_de r 1)"
    using fila_a_dict_nth [OF d, of 1 r] by (simp add: cabeceras_def celda_de_def)
  show "fila_a_dict cabeceras r ''port'' = Some (celda_de r 2)"
    using fila_a_dict_nth [OF d, of 2 r] by (simp add: cabeceras_def celda_de_def)
  show "fila_a_dict cabeceras r ''service_access_token'' = Some (celda_de r 3)"
    using fila_a_dict_nth [OF d, of 3 r] by (simp add: cabeceras_def celda_de_def)
  show "fila_a_dict cabeceras r ''tracker'' = Some (celda_de r 4)"
    using fila_a_dict_nth [OF d, of 4 r] by (simp add: cabeceras_def celda_de_def)
  show "fila_a_dict cabeceras r ''source'' = Some (celda_de r 5)"
    using fila_a_dict_nth [OF d, of 5 r] by (simp add: cabeceras_def celda_de_def)
  show "fila_a_dict cabeceras r ''host'' = Some (celda_de r 6)"
    using fila_a_dict_nth [OF d, of 6 r] by (simp add: cabeceras_def celda_de_def)
  show "fila_a_dict cabeceras r ''bitrate'' = Some (celda_de r 7)"
    using fila_a_dict_nth [OF d, of 7 r] by (simp add: cabeceras_def celda_de_def)
  show "fila_a_dict cabeceras r ''content_id'' = Some (celda_de r 8)"
    using fila_a_dict_nth [OF d, of 8 r] by (simp add: cabeceras_def celda_de_def)
qed

lemma argumentos_config_texto:
  assumes "argumentos_config (fila_a_dict cabeceras r)
           = Inr (v_nombre, v_titulo, v_puerto, v_tracker, v_source, v_host, v_bitrate, v_token)"
  shows "8 \<le> length r \<and> v_nombre = JStr (r ! 0) \<and> v_titulo = JStr (r ! 1)
         \<and> v_tracker = JStr (r ! 4) \<and> v_source = JStr (r ! 5) \<and> v_host = JStr (r ! 6)
         \<and> v_token = JStr (r ! 3)
         \<and> py_int (r ! 2) = Some v_puerto \<and> py_int (r ! 7) = Some v_bitrate"
proof -
  have largo: "8 \<le> length r"
  proof (rule ccontr)
    assume "\<not> 8 \<le> length r"
    then have "celda_de r 7 = JNull" by (simp add: celda_de_def)
    then have "argumentos_config (fila_a_dict cabeceras r) = Inl TypeError
               \<or> argumentos_config (fila_a_dict cabeceras r) = Inl ValueError"
      by (auto simp: argumentos_config_def ligar_def campo_def campos_de_fila entero_def
          split: sum.splits json.splits option.splits)
    with assms show False by auto
  qed
  then have "celda_de r 0 = JStr (r ! 0)" "celda_de r 1 = JStr (r ! 1)" "celda_de r 2 = JStr (r ! 2)"
    "celda_de r 3 = JStr (r ! 3)" "celda_de r 4 = JStr (r ! 4)" "celda_de r 5 = JStr (r ! 5)"
    "celda_de r 6 = JStr (r ! 6)" "celda_de r 7 = JStr (r ! 7)"
    by (auto simp: celda_de_def)
  with assms largo show ?thesis
    by (auto simp: argumentos_config_def ligar_def campo_def campos_de_fila entero_def
        split: option.splits)
qed

lemma fold_none_valores:
  "\<forall>k v. m k = Some v \<longrightarrow> v = JNull \<or> (\<exists>s. v = JStr s) \<Longrightarrow>
     fold (\<lambda>k d. d(k \<mapsto> JNull)) ks m k = Some v \<Longrightarrow> v = JNull \<or> (\<exists>s. v = JStr s)"
proof (induction ks arbitrary: m)
  case Nil
  then show ?case by simp
next
  case (Cons a ks)
  let ?F = "\<lambda>k d. d(k \<mapsto> JNull)"
  have paso: "fold ?F (a # ks) m = fold ?F ks (m(a \<mapsto> JNull))"
    by (simp only: fold_simps comp_apply)
  have "\<forall>k v. (m(a \<mapsto> JNull)) k = Some v \<longrightarrow> v = JNull \<or> (\<exists>s. v = JStr s)"
    using Cons.prems(1) by (auto split: if_splits)
  from Cons.IH [OF this] Cons.prems(2) show ?case
    unfolding paso by blast
qed

lemma fold_zip_valores:
  "\<forall>k v. m k = Some v \<longrightarrow> v = JNull \<or> (\<exists>s. v = JStr s) \<Longrightarrow>
     fold (\<lambda>(k, v) d. d(k \<mapsto> JStr v)) kvs m k = Some v \<Longrightarrow> v = JNull \<or> (\<exists>s. v = JStr s)"
proof (induction kvs arbitrary: m)
  case Nil
  then show ?case by simp
next
  case (Cons a kvs)
  let ?F = "\<lambda>(k, v) d. d(k \<mapsto> JStr v)"
  have paso: "fold ?F (a # kvs) m = fold ?F kvs (m(fst a \<mapsto> JStr (snd a)))"
    by (simp only: fold_simps comp_apply split_def)
  have "\<forall>k v. (m(fst a \<mapsto> JStr (snd a))) k = Some v \<longrightarrow> v = JNull \<or> (\<exists>s. v = JStr s)"
    using Cons.prems(1) by (auto split: if_splits)
  from Cons.IH [OF this] Cons.prems(2) show ?case
    unfolding paso by blast
qed

lemma valores_de_fila:
  assumes "fila_a_dict fieldnames row k = Some v"
  shows "v = JNull \<or> (\<exists>s. v = JStr s)"
proof -
  have "\<forall>k v. fold (\<lambda>(k, v) d. d(k \<mapsto> JStr v)) (zip fieldnames row) Map.empty k = Some v
          \<longrightarrow> v = JNull \<or> (\<exists>s. v = JStr s)"
  proof (intro allI impI)
    fix k v
    assume a: "fold (\<lambda>(k, v) d. d(k \<mapsto> JStr v)) (zip fieldnames row) Map.empty k = Some v"
    have "\<forall>k v. (Map.empty :: evento) k = Some v \<longrightarrow> v = JNull \<or> (\<exists>s. v = JStr s)"
      by simp
    from fold_zip_valores [OF this a] show "v = JNull \<or> (\<exists>s. v = JStr s)" .
  qed
  from fold_none_valores [OF this] assms show ?thesis
    unfolding fila_a_dict_def by blast
qed

lemma valores_leidos:
  assumes "ev \<in> set (leer_eventos_csv f)" and "ev k = Some v"
  shows "v = JNull \<or> (\<exists>s. v = JStr s)"
  using assms valores_de_fila
  by (auto simp: leer_eventos_csv_def split: list.splits)

lemma tipado_como_objeto: "tipado (como_objeto c) = Some c"
  by (simp add: tipado_def como_objeto_def)

lemma tipado_es_objeto: "tipado obj = Some c \<Longrightarrow> obj = como_objeto c"
  by (cases obj) (auto simp: tipado_def como_objeto_def split: option.splits)

lemma validar_objeto_como_objeto:
  "validar_objeto ip_address (como_objeto c) = Inr (validar ip_address c)"
  by (simp add: validar_objeto_def validar_def como_objeto_def)

lemma validar_objeto_tipado:
  "tipado obj = Some c \<Longrightarrow> validar_objeto ip_address obj = Inr (validar ip_address c)"
  using tipado_es_objeto [of obj c] validar_objeto_como_objeto by simp

lemma nombre_como_objeto: "formato (o_nombre (como_objeto c)) = nombre c"
  by (simp add: formato_def como_objeto_def)

lemma construir_config_fila:
  assumes "8 \<le> length r"
  shows "construir_config (fila_a_dict cabeceras r)
         = (case py_int (r ! 2) of
              None \<Rightarrow> Inl ValueError
            | Some p \<Rightarrow>
                (case py_int (r ! 7) of
                   None \<Rightarrow> Inl ValueError
                 | Some b \<Rightarrow>
                     Inr (como_objeto
                            \<lparr>nombre = r ! 0, titulo = r ! 1, puerto = p, tracker = r ! 4,
                             source = r ! 5, host = r ! 6, bitrate = b, token = r ! 3\<rparr>)))"
proof -
  from assms have "celda_de r 0 = JStr (r ! 0)" "celda_de r 1 = JStr (r ! 1)" "celda_de r 2 = JStr (r ! 2)"
    "celda_de r 3 = JStr (r ! 3)" "celda_de r 4 = JStr (r ! 4)" "celda_de r 5 = JStr (r ! 5)"
    "celda_de r 6 = JStr (r ! 6)" "celda_de r 7 = JStr (r ! 7)"
    by (auto simp: celda_de_def)
  then show ?thesis
    by (simp add: construir_config_def argumentos_config_def ligar_def campo_def
        campos_de_fila entero_def texto_def como_objeto_def split: option.splits)
qed

lemma construir_config_fila_corta:
  assumes "length r < 8"
  shows "construir_config (fila_a_dict cabeceras r)
         = (if 3 \<le> length r \<and> py_int (r ! 2) = None then Inl ValueError else Inl TypeError)"
proof -
  from assms have "celda_de r 7 = JNull" by (simp add: celda_de_def)
  moreover have "celda_de r 2 = (if 3 \<le> length r then JStr (r ! 2) else JNull)"
    by (auto simp: celda_de_def)
  ultimately show ?thesis
    by (simp add: construir_config_def argumentos_config_def ligar_def campo_def
        campos_de_fila entero_def split: option.splits)
qed

section \<open>The cycle of one record\<close>

lemma intentar_info:
  assumes "intentar r = Some (Inr info)"
  shows "\<exists>cid dh. info = [(''content_id'', cid), (''download_hash'', dh)]
           \<and> es_verdadero cid \<and> cid \<noteq> JStr no_encontrado"
  using assms
  by (auto simp: intentar_def Let_def split: respuesta.splits cuerpo.splits json.splits if_splits)

lemma bucle_monitor_info:
  "bucle_monitor resp j n = (Inr info, m) \<Longrightarrow> \<exists>i. intentar (resp i) = Some (Inr info)"
proof (induction n arbitrary: j)
  case 0
  then show ?case by simp
next
  case (Suc n)
  then show ?case
    by (cases "intentar (resp j)") auto
qed

lemma obtener_monitor_info:
  assumes "obtener_monitor resp c p n = (Inr info, m)"
  shows "\<exists>cid dh. info = [(''content_id'', cid), (''download_hash'', dh)]
           \<and> es_verdadero cid \<and> cid \<noteq> JStr no_encontrado"
  using assms bucle_monitor_info [of resp 0 "nat n" info m] intentar_info
  by (auto simp: obtener_monitor_def)

lemma content_id_de_info:
  "dict_get_defecto [(''content_id'', cid), (''download_hash'', dh)] ''content_id'' d = cid"
  by (simp add: dict_get_defecto_def)

lemma obtener_monitor_ignora:
  "obtener_monitor resp c p n = obtener_monitor resp c' p' n"
  by (simp add: obtener_monitor_def)

lemma resolver_escritura:
  assumes "Escritura nom v \<in> set (snd (resolver_content_id bib env config f))"
  shows "es_verdadero v \<and> v \<noteq> JStr no_encontrado"
proof (cases "e_ps env")
  case (Inl e)
  with assms show ?thesis by (simp add: resolver_content_id_def)
next
  case (Inr salida)
  obtain r m where om: "obtener_monitor (e_monitor env) (strip salida) (puerto config) 10 = (r, m)"
    by (cases "obtener_monitor (e_monitor env) (strip salida) (puerto config) 10")
  show ?thesis
  proof (cases r)
    case (Inl e)
    with assms Inr om show ?thesis by (simp add: resolver_content_id_def)
  next
    case info: (Inr info)
    with om obtener_monitor_info obtain cid dh
      where i: "info = [(''content_id'', cid), (''download_hash'', dh)]"
        and c: "es_verdadero cid" "cid \<noteq> JStr no_encontrado"
      by blast
    from assms Inr om info have "v = cid"
      by (auto simp: resolver_content_id_def Let_def i content_id_de_info
          split: prod.splits option.splits)
    with c show ?thesis by simp
  qed
qed

lemma resolver_sin_sondeo:
  assumes "fst (obtener_monitor (e_monitor env) c p 10) = Inl e"
  shows "fst (resolver_content_id bib env config f) = f
         \<and> (\<forall>nom v. Escritura nom v \<notin> set (snd (resolver_content_id bib env config f)))"
proof (cases "e_ps env")
  case (Inl e')
  then show ?thesis by (simp add: resolver_content_id_def)
next
  case (Inr salida)
  from assms obtain m
    where "obtener_monitor (e_monitor env) (strip salida) (puerto config) 10 = (Inl e, m)"
    using obtener_monitor_ignora [of "e_monitor env" c p 10 "strip salida" "puerto config"]
    by (cases "obtener_monitor (e_monitor env) (strip salida) (puerto config) 10") simp
  with Inr show ?thesis by (simp add: resolver_content_id_def)
qed

lemma verificar_sin_escritura:
  "Escritura nom v \<notin> set (snd (verificar_y_limpiar_contenedor env n))"
  by (auto simp: verificar_y_limpiar_contenedor_def split: sum.splits)

lemma ejecutar_sin_escritura:
  "Escritura nom v \<notin> set (snd (ejecutar_docker env config))"
  by (auto simp: ejecutar_docker_def Let_def split: sum.splits)

lemma procesar_evento_casos:
  "(procesar_evento bib env ev f = (f, snd (procesar_evento bib env ev f))
      \<and> (\<forall>nom v. Escritura nom v \<notin> set (snd (procesar_evento bib env ev f))))
   \<or> (\<exists>config antes.
        procesar_evento bib env ev f
        = (fst (resolver_content_id bib env config f),
           antes @ snd (resolver_content_id bib env config f))
        \<and> (\<forall>nom v. Escritura nom v \<notin> set antes))"
proof (cases "construir_config ev")
  case (Inl e)
  then show ?thesis by (simp add: procesar_evento_def)
next
  case obj: (Inr obj)
  show ?thesis
  proof (cases "validar_objeto (b_ip_address bib) obj")
    case (Inl e)
    with obj show ?thesis by (simp add: procesar_evento_def)
  next
    case (Inr errores)
    show ?thesis
    proof (cases "errores = []")
      case False
      with obj Inr show ?thesis by (simp add: procesar_evento_def)
    next
      case True
      let ?nom = "formato (o_nombre obj)"
      obtain r1 h1 where v: "verificar_y_limpiar_contenedor env ?nom = (r1, h1)"
        by (cases "verificar_y_limpiar_contenedor env ?nom")
      have h1: "Escritura nom v \<notin> set h1" for nom v
        using verificar_sin_escritura [of nom v env ?nom] v by simp
      show ?thesis
      proof (cases r1)
        case (Inl e1)
        with obj Inr True v h1 show ?thesis by (simp add: procesar_evento_def)
      next
        case r1: (Inr u)
        show ?thesis
        proof (cases "tipado obj")
          case None
          with obj Inr True v r1 h1 show ?thesis by (simp add: procesar_evento_def Let_def)
        next
          case (Some config)
          obtain r2 h2 where e: "ejecutar_docker env config = (r2, h2)"
            by (cases "ejecutar_docker env config")
          have h2: "Escritura nom v \<notin> set h2" for nom v
            using ejecutar_sin_escritura [of nom v env config] e by simp
          show ?thesis
          proof (cases r2)
            case (Inl e2)
            with obj Inr True v r1 Some e h1 h2 show ?thesis
              by (simp add: procesar_evento_def Let_def)
          next
            case r2: (Inr u')
            let ?antes = "Validado [] # h1 @
              [Limpieza (''acestreamengine_'' @ ?nom)
                 (fst (limpiar_archivos_temporales (e_sistema env) (e_archivos env)
                         (''acestreamengine_'' @ ?nom)))] @ h2"
            have "procesar_evento bib env ev f
                  = (fst (resolver_content_id bib env config f),
                     ?antes @ snd (resolver_content_id bib env config f))"
              using obj Inr True v r1 Some e r2
              by (simp add: procesar_evento_def Let_def split: prod.splits)
            moreover have "\<forall>nom v. Escritura nom v \<notin> set ?antes"
              using h1 h2 by simp
            ultimately show ?thesis by blast
          qed
        qed
      qed
    qed
  qed
qed

lemma procesar_evento_escritura:
  assumes "Escritura nom v \<in> set (snd (procesar_evento bib env ev f))"
  shows "es_verdadero v \<and> v \<noteq> JStr no_encontrado"
  using procesar_evento_casos [of bib env ev f] assms resolver_escritura
  by (metis UnE set_append snd_conv)

lemma procesar_evento_sin_sondeo:
  assumes "fst (obtener_monitor (e_monitor env) c p 10) = Inl e"
  shows "fst (procesar_evento bib env ev f) = f
         \<and> (\<forall>nom v. Escritura nom v \<notin> set (snd (procesar_evento bib env ev f)))"
proof -
  note r = resolver_sin_sondeo [OF assms]
  from procesar_evento_casos [of bib env ev f] show ?thesis
  proof
    assume "procesar_evento bib env ev f = (f, snd (procesar_evento bib env ev f))
      \<and> (\<forall>nom v. Escritura nom v \<notin> set (snd (procesar_evento bib env ev f)))"
    then show ?thesis by (metis fst_conv)
  next
    assume "\<exists>config antes.
        procesar_evento bib env ev f
        = (fst (resolver_content_id bib env config f),
           antes @ snd (resolver_content_id bib env config f))
        \<and> (\<forall>nom v. Escritura nom v \<notin> set antes)"
    then obtain config antes where
      p: "procesar_evento bib env ev f
        = (fst (resolver_content_id bib env config f),
           antes @ snd (resolver_content_id bib env config f))"
      and a: "\<forall>nom v. Escritura nom v \<notin> set antes"
      by blast
    from r [of bib config f] a show ?thesis
      unfolding p by simp
  qed
qed

section \<open>The batch\<close>

lemma bucle_indices_prefijo:
  "list_all (en_rango eventos) antes \<Longrightarrow>
     fst (bucle_indices bib entornos eventos k antes st) = None
     \<and> bucle_indices bib entornos eventos k (antes @ resto) st
       = bucle_indices bib entornos eventos (k + length antes) resto
           (snd (bucle_indices bib entornos eventos k antes st))"
proof (induction antes arbitrary: k st)
  case Nil
  then show ?case by simp
next
  case (Cons idx antes)
  then have a: "list_all (en_rango eventos) antes" by simp
  from Cons.prems have i: "0 \<le> idx \<and> idx < int (length eventos)"
    by (simp add: en_rango_def)
  obtain f' hecho
    where p: "procesar_evento bib (entornos k) (eventos ! nat idx) (archivo st) = (f', hecho)"
    by (cases "procesar_evento bib (entornos k) (eventos ! nat idx) (archivo st)")
  from Cons.IH [OF a, of "Suc k" "\<lparr>archivo = f', traza = traza st @ hecho\<rparr>"] i p
  show ?case by simp
qed

lemma bucle_indices_escrituras:
  assumes "\<forall>nom v. Escritura nom v \<in> set (traza st) \<longrightarrow> es_verdadero v \<and> v \<noteq> JStr no_encontrado"
  shows "\<forall>nom v. Escritura nom v \<in> set (traza (snd (bucle_indices bib entornos eventos k indices st)))
           \<longrightarrow> es_verdadero v \<and> v \<noteq> JStr no_encontrado"
  using assms
proof (induction indices arbitrary: k st)
  case Nil
  then show ?case by simp
next
  case (Cons idx indices)
  show ?case
  proof (cases "0 \<le> idx \<and> idx < int (length eventos)")
    case False
    with Cons.prems show ?thesis by simp
  next
    case True
    obtain f' hecho
      where p: "procesar_evento bib (entornos k) (eventos ! nat idx) (archivo st) = (f', hecho)"
      by (cases "procesar_evento bib (entornos k) (eventos ! nat idx) (archivo st)")
    have "\<forall>nom v. Escritura nom v \<in> set (traza \<lparr>archivo = f', traza = traza st @ hecho\<rparr>)
            \<longrightarrow> es_verdadero v \<and> v \<noteq> JStr no_encontrado"
      using Cons.prems p
        procesar_evento_escritura [of _ _ bib "entornos k" "eventos ! nat idx" "archivo st"]
      by auto
    from Cons.IH [OF this, of "Suc k"] True p show ?thesis by simp
  qed
qed

text \<open>
  C1, as amended. The engine raises the index error when it reaches the first index
  that is out of range: the indices before it, all in range, have been processed by then
  exactly as a batch of their own, and nothing is done for that index or for any index
  after it. When the first index of the batch is out of range, nothing is done at all:
  the store is as it was and the trace is empty.
\<close>

theorem indice_fuera_de_rango:
  assumes "list_all (en_rango (leer_eventos_csv f)) antes"
    and "\<not> en_rango (leer_eventos_csv f) idx"
  shows "fst (crear_desde_csv bib entornos antes f) = None
     \<and> crear_desde_csv bib entornos (antes @ idx # despues) f
       = (Some ValueError, snd (crear_desde_csv bib entornos antes f))
     \<and> (antes = [] \<longrightarrow>
          crear_desde_csv bib entornos (antes @ idx # despues) f
          = (Some ValueError, \<lparr>archivo = f, traza = []\<rparr>))"
proof -
  let ?evs = "leer_eventos_csv f"
  let ?st = "\<lparr>archivo = f, traza = []\<rparr>"
  from bucle_indices_prefijo [OF assms(1), of bib entornos 0 ?st "idx # despues"]
  have n: "fst (bucle_indices bib entornos ?evs 0 antes ?st) = None"
    and a: "bucle_indices bib entornos ?evs 0 (antes @ idx # despues) ?st
       = bucle_indices bib entornos ?evs (0 + length antes) (idx # despues)
           (snd (bucle_indices bib entornos ?evs 0 antes ?st))"
    by simp_all
  from assms(2) have
    "bucle_indices bib entornos ?evs (0 + length antes) (idx # despues)
           (snd (bucle_indices bib entornos ?evs 0 antes ?st))
     = (Some ValueError, snd (bucle_indices bib entornos ?evs 0 antes ?st))"
    by (simp add: en_rango_def)
  with a n show ?thesis
    by (auto simp: crear_desde_csv_def)
qed

text \<open>
  C9. A dict returned by the poller always has a \<open>content_id\<close> that is true as a
  condition and is not the sentinel, so the default of the engine's
  \<open>info.get('content_id', 'No encontrado')\<close> is never taken; and every commit in the trace
  of a batch carries such a value: not empty and not the sentinel, also as the text that
  is written to the store when the value is a \<open>str\<close>.
\<close>

theorem escritura_no_vacia:
  "(obtener_monitor respuestas c p n = (Inr info, m) \<longrightarrow>
      dict_get_defecto info ''content_id'' d = dict_get info ''content_id''
      \<and> es_verdadero (dict_get info ''content_id'')
      \<and> dict_get info ''content_id'' \<noteq> JStr no_encontrado)
   \<and> (\<forall>nom v. Escritura nom v \<in> set (traza (snd (crear_desde_csv bib entornos indices f))) \<longrightarrow>
         es_verdadero v \<and> v \<noteq> JStr no_encontrado
         \<and> (\<forall>s. v = JStr s \<longrightarrow> texto_celda (b_str bib) v \<noteq> []
                                \<and> texto_celda (b_str bib) v \<noteq> no_encontrado))"
proof (intro conjI impI allI)
  assume "obtener_monitor respuestas c p n = (Inr info, m)"
  with obtener_monitor_info obtain cid dh
    where i: "info = [(''content_id'', cid), (''download_hash'', dh)]"
      and c: "es_verdadero cid" "cid \<noteq> JStr no_encontrado"
    by blast
  show "dict_get_defecto info ''content_id'' d = dict_get info ''content_id''"
    by (simp add: i dict_get_def content_id_de_info)
  show "es_verdadero (dict_get info ''content_id'')"
    using c by (simp add: i dict_get_def content_id_de_info)
  show "dict_get info ''content_id'' \<noteq> JStr no_encontrado"
    using c by (simp add: i dict_get_def content_id_de_info)
next
  fix nom v
  assume e: "Escritura nom v \<in> set (traza (snd (crear_desde_csv bib entornos indices f)))"
  have "\<forall>nom v. Escritura nom v \<in> set (traza \<lparr>archivo = f, traza = []\<rparr>)
          \<longrightarrow> es_verdadero v \<and> v \<noteq> JStr no_encontrado"
    by simp
  from bucle_indices_escrituras [OF this] e
  have v: "es_verdadero v \<and> v \<noteq> JStr no_encontrado"
    by (simp add: crear_desde_csv_def)
  then show "es_verdadero v" and "v \<noteq> JStr no_encontrado" by simp_all
  fix s assume "v = JStr s"
  with v show "texto_celda (b_str bib) v \<noteq> []" and "texto_celda (b_str bib) v \<noteq> no_encontrado"
    by (simp_all add: texto_celda_def)
qed

text \<open>
  C4. When the poll of a record of the batch fails (with the \<open>RuntimeError\<close> of the
  exhausted attempts, or any other exception), the cycle of that record leaves the whole
  store as it was and commits nothing, and the loop goes on with the rest of the batch
  from that same store.
\<close>

theorem sondeo_agotado_no_escribe:
  assumes "fst (obtener_monitor (e_monitor (entornos k)) c p 10) = Inl e"
    and "0 \<le> idx \<and> idx < int (length eventos)"
  shows "fst (procesar_evento bib (entornos k) (eventos ! nat idx) (archivo st)) = archivo st
     \<and> (\<forall>nom v. Escritura nom v
            \<notin> set (snd (procesar_evento bib (entornos k) (eventos ! nat idx) (archivo st))))
     \<and> bucle_indices bib entornos eventos k (idx # resto) st
       = bucle_indices bib entornos eventos (Suc k) resto
           \<lparr>archivo = archivo st,
            traza = traza st
              @ snd (procesar_evento bib (entornos k) (eventos ! nat idx) (archivo st))\<rparr>"
proof -
  note s = procesar_evento_sin_sondeo [OF assms(1), of bib "eventos ! nat idx" "archivo st"]
  moreover from s assms(2)
  have "bucle_indices bib entornos eventos k (idx # resto) st
       = bucle_indices bib entornos eventos (Suc k) resto
           \<lparr>archivo = archivo st,
            traza = traza st
              @ snd (procesar_evento bib (entornos k) (eventos ! nat idx) (archivo st))\<rparr>"
    by (cases "procesar_evento bib (entornos k) (eventos ! nat idx) (archivo st)") simp
  ultimately show ?thesis by simp
qed

section \<open>A batch on a concrete store\<close>

lemma py_int_ejemplos:
  "py_int ''8642'' = Some 8642" "py_int ''600000'' = Some 600000"
  "py_int ''9000'' = Some 9000" "py_int ''0'' = Some 0" "py_int ''abc'' = None"
  by (simp_all add: py_int_def recortar_int_def es_espacio_int_def es_digito_def
      pocos_digitos_def limite_digitos_def valor_entero_def valor_digito_def)

lemma py_int_espacios:
  "py_int (CHR 0x1C # ''8642'') = None" "py_int '' 8642 '' = Some 8642"
  "py_int (''8642'' @ [CHR 0x0A]) = Some 8642" "py_int ''+8_642'' = Some 8642"
  "py_int ''8__642'' = None" "py_int [] = None"
  by (simp_all add: py_int_def recortar_int_def es_espacio_int_def es_digito_def
      pocos_digitos_def limite_digitos_def valor_entero_def valor_digito_def)

lemma config_de_fila_demo:
  "construir_config (fila_a_dict cabeceras fila_demo) = Inr (como_objeto config_demo)"
proof -
  have "8 \<le> length fila_demo" by (simp add: fila_demo_def)
  from construir_config_fila [OF this] show ?thesis
    by (simp add: fila_demo_def py_int_ejemplos config_demo_def)
qed

lemma config_de_fila_otra:
  "construir_config (fila_a_dict cabeceras fila_otra) = Inr (como_objeto config_otro)"
proof -
  have "8 \<le> length fila_otra" by (simp add: fila_otra_def)
  from construir_config_fila [OF this] show ?thesis
    by (simp add: fila_otra_def py_int_ejemplos config_otro_def)
qed

lemma config_de_fila_puerto_malo:
  "construir_config (fila_a_dict cabeceras fila_puerto_malo) = Inl ValueError"
proof -
  have "8 \<le> length fila_puerto_malo" by (simp add: fila_puerto_malo_def)
  from construir_config_fila [OF this] show ?thesis
    by (simp add: fila_puerto_malo_def py_int_ejemplos)
qed

lemma validar_bib_demo:
  "validar (b_ip_address bib_demo) config_demo = []"
  "validar (b_ip_address bib_demo) config_otro = []"
  by (simp_all add: validar_def bib_demo_def config_demo_def config_otro_def coincide_nombre_def
      sin_salto_final_def es_alnum_def es_dominio_valido_def etiqueta_valida_def strip_def
      es_espacio_def es_ip_valida_def)

lemma eventos_demo:
  "leer_eventos_csv almacen_demo
   = [fila_a_dict cabeceras fila_demo, fila_a_dict cabeceras fila_otra]"
proof -
  have "list_all (\<lambda>r. length r = 9) [fila_demo, fila_otra]"
    by (simp add: fila_demo_def fila_otra_def)
  from leer_bien_formado [OF this] show ?thesis by (simp add: almacen_demo_def)
qed

lemma sondeo_demo:
  "obtener_monitor respuestas_demo c p 10
   = (Inr [(''content_id'', JStr ''abc123''), (''download_hash'', JNull)], 3)"
proof -
  have "\<forall>i. 0 \<le> i \<and> i < 0 + 2 \<longrightarrow> intentar (respuestas_demo i) = None"
    by (simp add: intentar_def respuestas_demo_def)
  moreover have "intentar (respuestas_demo (0 + 2))
    = Some (Inr [(''content_id'', JStr ''abc123''), (''download_hash'', JNull)])"
    by (simp add: intentar_def respuestas_demo_def dict_get_def dict_get_defecto_def
        no_encontrado_def)
  ultimately show ?thesis
    using bucle_monitor_exito [of 2 10 0 respuestas_demo]
    by (simp add: obtener_monitor_def)
qed

lemma sondeo_caido:
  "obtener_monitor respuestas_caidas c p 10 = (Inl RuntimeError, 10)"
proof -
  have "\<forall>i. 0 \<le> i \<and> i < 0 + 10 \<longrightarrow> intentar (respuestas_caidas i) = None"
    by (simp add: intentar_def respuestas_caidas_def)
  then show ?thesis
    using bucle_monitor_agotado [of 0 10 respuestas_caidas] by (simp add: obtener_monitor_def)
qed

lemma limpieza_demo:
  "fst (limpiar_archivos_temporales Linux archivos_demo ''acestreamengine_demo'') = 2"
  "fst (limpiar_archivos_temporales Linux archivos_demo ''acestreamengine_final_2'') = 0"
  by (simp_all add: limpiar_archivos_temporales_def ruta_base_def archivos_demo_def
      directorio_demo_def sufijos_ejemplo extensiones_permitidas_def)

lemma campos_config_demo:
  "nombre config_demo = ''demo''" "puerto config_demo = 8642"
  "nombre config_otro = ''final_2''" "puerto config_otro = 9000"
  by (simp_all add: config_demo_def config_otro_def)

lemma verificar_demo:
  "verificar_y_limpiar_contenedor entorno_demo n = (Inr (), [DockerPsA n])"
  "verificar_y_limpiar_contenedor entorno_caido n = (Inr (), [DockerPsA n])"
  by (simp_all add: verificar_y_limpiar_contenedor_def entorno_demo_def entorno_caido_def
      strip_def)

lemma ejecutar_demo:
  "ejecutar_docker entorno_demo config = (Inr (), [DockerRun (construir_comando_docker config)])"
  "ejecutar_docker entorno_caido config = (Inr (), [DockerRun (construir_comando_docker config)])"
  by (simp_all add: ejecutar_docker_def entorno_demo_def entorno_caido_def)

lemma actualizar_demo:
  "actualizar_content_id (b_str bib_demo) ''demo'' (JStr ''abc123'') almacen_demo
   = (almacen_resuelto, None)"
  "actualizar_content_id (b_str bib_demo) ''final_2'' (JStr ''abc123'') almacen_demo
   = ([cabeceras, fila_demo, fila_otra[8 := ''abc123'']], None)"
  using actualizar_bien_formado [OF almacen_demo_bien_formado]
  by (simp_all add: almacen_demo_def almacen_resuelto_def fila_actualizada_def texto_celda_def
      fila_demo_def fila_otra_def)

lemma resolver_demo:
  "resolver_content_id bib_demo entorno_demo config_demo almacen_demo
   = (almacen_resuelto, [DockerPs ''demo'', Sondeo 3, Escritura ''demo'' (JStr ''abc123'')])"
  by (simp add: resolver_content_id_def entorno_demo_def strip_def es_espacio_def sondeo_demo
      campos_config_demo dict_get_defecto_def actualizar_demo)

lemma procesar_demo:
  "procesar_evento bib_demo entorno_demo (fila_a_dict cabeceras fila_demo) almacen_demo
   = (almacen_resuelto, traza_demo)"
  by (simp add: procesar_evento_def config_de_fila_demo validar_objeto_como_objeto
      tipado_como_objeto nombre_como_objeto validar_bib_demo verificar_demo
      ejecutar_demo resolver_demo campos_config_demo traza_demo_def limpieza_demo
      entorno_demo_def [THEN arg_cong [of _ _ e_sistema]]
      entorno_demo_def [THEN arg_cong [of _ _ e_archivos]])

lemma crear_demo:
  "crear_desde_csv bib_demo (\<lambda>k. entorno_demo) [0] almacen_demo
   = (None, \<lparr>archivo = almacen_resuelto, traza = traza_demo\<rparr>)"
  by (simp add: crear_desde_csv_def eventos_demo procesar_demo)

text \<open>
  The claim C1 as stated fails on a batch whose second index is the number of records:
  the first record has been processed, container launched and store rewritten, when
  the index error is raised.
\<close>

theorem indice_fuera_de_rango_contraejemplo:
  "\<not> en_rango (leer_eventos_csv almacen_demo) 2
   \<and> crear_desde_csv bib_demo (\<lambda>k. entorno_demo) [0, 2] almacen_demo
     = (Some ValueError, \<lparr>archivo = almacen_resuelto, traza = traza_demo\<rparr>)
   \<and> almacen_resuelto \<noteq> almacen_demo
   \<and> Escritura ''demo'' (JStr ''abc123'') \<in> set traza_demo"
proof -
  have "\<not> en_rango (leer_eventos_csv almacen_demo) 2"
    by (simp add: eventos_demo en_rango_def)
  moreover have "crear_desde_csv bib_demo (\<lambda>k. entorno_demo) [0, 2] almacen_demo
     = (Some ValueError, \<lparr>archivo = almacen_resuelto, traza = traza_demo\<rparr>)"
    by (simp add: crear_desde_csv_def eventos_demo procesar_demo)
  moreover have "almacen_resuelto \<noteq> almacen_demo"
    by (simp add: almacen_resuelto_def almacen_demo_def fila_demo_def)
  moreover have "Escritura ''demo'' (JStr ''abc123'') \<in> set traza_demo"
    by (simp add: traza_demo_def)
  ultimately show ?thesis by simp
qed

theorem indice_fuera_de_rango_witness:
  "crear_desde_csv bib_demo (\<lambda>k. entorno_demo) [0, 2, 1] almacen_demo
     = (Some ValueError, \<lparr>archivo = almacen_resuelto, traza = traza_demo\<rparr>)
   \<and> crear_desde_csv bib_demo (\<lambda>k. entorno_demo) [2, 0] almacen_demo
     = (Some ValueError, \<lparr>archivo = almacen_demo, traza = []\<rparr>)"
proof -
  have r0: "list_all (en_rango (leer_eventos_csv almacen_demo)) [0]"
    by (simp add: eventos_demo en_rango_def)
  have r: "list_all (en_rango (leer_eventos_csv almacen_demo)) []"
    by simp
  have f: "\<not> en_rango (leer_eventos_csv almacen_demo) 2"
    by (simp add: eventos_demo en_rango_def)
  from indice_fuera_de_rango [OF r0 f, of bib_demo "\<lambda>k. entorno_demo" "[1]"]
  have a: "crear_desde_csv bib_demo (\<lambda>k. entorno_demo) [0, 2, 1] almacen_demo
     = (Some ValueError, \<lparr>archivo = almacen_resuelto, traza = traza_demo\<rparr>)"
    by (simp add: crear_demo)
  from indice_fuera_de_rango [OF r f, of bib_demo "\<lambda>k. entorno_demo" "[0]"]
  have "crear_desde_csv bib_demo (\<lambda>k. entorno_demo) ([] @ 2 # [0]) almacen_demo
     = (Some ValueError, \<lparr>archivo = almacen_demo, traza = []\<rparr>)"
    by blast
  with a show ?thesis by simp
qed

theorem escritura_no_vacia_witness:
  "obtener_monitor respuestas_demo ''0123abcd'' 8642 10
     = (Inr [(''content_id'', JStr ''abc123''), (''download_hash'', JNull)], 3)
   \<and> dict_get_defecto [(''content_id'', JStr ''abc123''), (''download_hash'', JNull)]
        ''content_id'' (JStr no_encontrado) = JStr ''abc123''
   \<and> Escritura ''demo'' (JStr ''abc123'')
       \<in> set (traza (snd (crear_desde_csv bib_demo (\<lambda>k. entorno_demo) [0] almacen_demo)))
   \<and> es_verdadero (JStr ''abc123'') \<and> JStr ''abc123'' \<noteq> JStr no_encontrado
   \<and> texto_celda (b_str bib_demo) (JStr ''abc123'') \<noteq> no_encontrado"
proof -
  note t = escritura_no_vacia [of respuestas_demo "''0123abcd''" 8642 10
      "[(''content_id'', JStr ''abc123''), (''download_hash'', JNull)]" 3 "JStr no_encontrado"
      bib_demo "\<lambda>k. entorno_demo" "[0]" almacen_demo]
  have s: "obtener_monitor respuestas_demo ''0123abcd'' 8642 10
     = (Inr [(''content_id'', JStr ''abc123''), (''download_hash'', JNull)], 3)"
    by (rule sondeo_demo)
  have e: "Escritura ''demo'' (JStr ''abc123'')
       \<in> set (traza (snd (crear_desde_csv bib_demo (\<lambda>k. entorno_demo) [0] almacen_demo)))"
    by (simp add: crear_demo traza_demo_def)
  from t s have "dict_get_defecto [(''content_id'', JStr ''abc123''), (''download_hash'', JNull)]
        ''content_id'' (JStr no_encontrado)
      = dict_get [(''content_id'', JStr ''abc123''), (''download_hash'', JNull)] ''content_id''"
    by blast
  then have d: "dict_get_defecto [(''content_id'', JStr ''abc123''), (''download_hash'', JNull)]
        ''content_id'' (JStr no_encontrado) = JStr ''abc123''"
    by (simp add: dict_get_def dict_get_defecto_def)
  from t e have "es_verdadero (JStr ''abc123'') \<and> JStr ''abc123'' \<noteq> JStr no_encontrado
      \<and> texto_celda (b_str bib_demo) (JStr ''abc123'') \<noteq> no_encontrado"
    by blast
  with s d e show ?thesis by simp
qed

lemma campos_entorno:
  "e_sistema entorno_demo = Linux" "e_archivos entorno_demo = archivos_demo"
  "e_sistema entorno_caido = Linux" "e_archivos entorno_caido = archivos_demo"
  by (simp_all add: entorno_demo_def entorno_caido_def)

lemma resolver_caido:
  "resolver_content_id bib entorno_caido config f
   = (f, [DockerPs (nombre config), Sondeo 10, ErrorRegistrado RuntimeError])"
  by (simp add: resolver_content_id_def entorno_caido_def entorno_demo_def sondeo_caido)

lemma procesar_caido:
  "procesar_evento bib_demo entorno_caido (fila_a_dict cabeceras fila_demo) almacen_demo
   = (almacen_demo,
      [Validado [], DockerPsA ''demo'', Limpieza ''acestreamengine_demo'' 2,
       DockerRun (construir_comando_docker config_demo), DockerPs ''demo'', Sondeo 10,
       ErrorRegistrado RuntimeError])"
  by (simp add: procesar_evento_def config_de_fila_demo validar_objeto_como_objeto
      tipado_como_objeto nombre_como_objeto validar_bib_demo verificar_demo
      ejecutar_demo resolver_caido campos_config_demo limpieza_demo campos_entorno)

lemma resolver_otro:
  "resolver_content_id bib_demo entorno_demo config_otro almacen_demo
   = ([cabeceras, fila_demo, fila_otra[8 := ''abc123'']],
      [DockerPs ''final_2'', Sondeo 3, Escritura ''final_2'' (JStr ''abc123'')])"
  by (simp add: resolver_content_id_def entorno_demo_def strip_def es_espacio_def sondeo_demo
      campos_config_demo dict_get_defecto_def actualizar_demo)

lemma procesar_otro:
  "procesar_evento bib_demo entorno_demo (fila_a_dict cabeceras fila_otra) almacen_demo
   = ([cabeceras, fila_demo, fila_otra[8 := ''abc123'']],
      [Validado [], DockerPsA ''final_2'', Limpieza ''acestreamengine_final_2'' 0,
       DockerRun (construir_comando_docker config_otro), DockerPs ''final_2'', Sondeo 3,
       Escritura ''final_2'' (JStr ''abc123'')])"
  by (simp add: procesar_evento_def config_de_fila_otra validar_objeto_como_objeto
      tipado_como_objeto nombre_como_objeto validar_bib_demo verificar_demo
      ejecutar_demo resolver_otro campos_config_demo limpieza_demo campos_entorno)

theorem sondeo_agotado_no_escribe_witness:
  "fst (obtener_monitor (e_monitor (entornos_demo 0)) ''0123abcd'' 8642 10) = Inl RuntimeError
   \<and> fst (procesar_evento bib_demo (entornos_demo 0) (fila_a_dict cabeceras fila_demo)
            almacen_demo) = almacen_demo
   \<and> fst (crear_desde_csv bib_demo entornos_demo [0, 1] almacen_demo) = None
   \<and> archivo (snd (crear_desde_csv bib_demo entornos_demo [0, 1] almacen_demo))
     = [cabeceras, fila_demo, fila_otra[8 := ''abc123'']]"
proof -
  let ?evs = "leer_eventos_csv almacen_demo"
  let ?st = "\<lparr>archivo = almacen_demo, traza = []\<rparr>"
  have h: "fst (obtener_monitor (e_monitor (entornos_demo 0)) ''0123abcd'' 8642 10)
           = Inl RuntimeError"
    by (simp add: entornos_demo_def entorno_caido_def sondeo_caido)
  have i: "0 \<le> (0::int) \<and> 0 < int (length ?evs)"
    by (simp add: eventos_demo)
  from sondeo_agotado_no_escribe [where entornos = entornos_demo and k = 0
      and eventos = ?evs and idx = 0 and bib = bib_demo and st = ?st and resto = "[1]", OF h i]
  have p: "fst (procesar_evento bib_demo (entornos_demo 0) (?evs ! nat 0) almacen_demo)
           = almacen_demo"
    and b: "bucle_indices bib_demo entornos_demo ?evs 0 [0, 1] ?st
       = bucle_indices bib_demo entornos_demo ?evs (Suc 0) [1]
           \<lparr>archivo = almacen_demo,
            traza = snd (procesar_evento bib_demo (entornos_demo 0) (?evs ! nat 0) almacen_demo)\<rparr>"
    by simp_all
  have o: "entornos_demo (Suc 0) = entorno_demo"
    by (simp add: entornos_demo_def)
  from b have "crear_desde_csv bib_demo entornos_demo [0, 1] almacen_demo
       = bucle_indices bib_demo entornos_demo ?evs (Suc 0) [1]
           \<lparr>archivo = almacen_demo,
            traza = snd (procesar_evento bib_demo (entornos_demo 0) (?evs ! nat 0) almacen_demo)\<rparr>"
    by (simp add: crear_desde_csv_def)
  then have "fst (crear_desde_csv bib_demo entornos_demo [0, 1] almacen_demo) = None
     \<and> archivo (snd (crear_desde_csv bib_demo entornos_demo [0, 1] almacen_demo))
       = [cabeceras, fila_demo, fila_otra[8 := ''abc123'']]"
    by (simp add: eventos_demo o procesar_otro)
  with h p show ?thesis by (simp add: eventos_demo)
qed

section \<open>Validation of a stored row\<close>

lemma campos_sin_tracker:
  "fila_a_dict cabeceras_tracker_final fila_sin_tracker ''name'' = Some (JStr ''demo'')"
  "fila_a_dict cabeceras_tracker_final fila_sin_tracker ''title'' = Some (JStr ''Demo'')"
  "fila_a_dict cabeceras_tracker_final fila_sin_tracker ''port'' = Some (JStr ''8642'')"
  "fila_a_dict cabeceras_tracker_final fila_sin_tracker ''service_access_token''
   = Some (JStr ''12345'')"
  "fila_a_dict cabeceras_tracker_final fila_sin_tracker ''source''
   = Some (JStr ''http://10.0.0.9/live.ts'')"
  "fila_a_dict cabeceras_tracker_final fila_sin_tracker ''host'' = Some (JStr ''10.0.0.5'')"
  "fila_a_dict cabeceras_tracker_final fila_sin_tracker ''bitrate'' = Some (JStr ''600000'')"
  "fila_a_dict cabeceras_tracker_final fila_sin_tracker ''tracker'' = Some JNull"
proof -
  have d: "distinct cabeceras_tracker_final" by (simp add: cabeceras_tracker_final_def)
  note n = fila_a_dict_nth [OF d, of _ fila_sin_tracker]
  show "fila_a_dict cabeceras_tracker_final fila_sin_tracker ''name'' = Some (JStr ''demo'')"
    using n [of 0] by (simp add: cabeceras_tracker_final_def fila_sin_tracker_def)
  show "fila_a_dict cabeceras_tracker_final fila_sin_tracker ''title'' = Some (JStr ''Demo'')"
    using n [of 1] by (simp add: cabeceras_tracker_final_def fila_sin_tracker_def)
  show "fila_a_dict cabeceras_tracker_final fila_sin_tracker ''port'' = Some (JStr ''8642'')"
    using n [of 2] by (simp add: cabeceras_tracker_final_def fila_sin_tracker_def)
  show "fila_a_dict cabeceras_tracker_final fila_sin_tracker ''service_access_token''
   = Some (JStr ''12345'')"
    using n [of 3] by (simp add: cabeceras_tracker_final_def fila_sin_tracker_def)
  show "fila_a_dict cabeceras_tracker_final fila_sin_tracker ''source''
   = Some (JStr ''http://10.0.0.9/live.ts'')"
    using n [of 4] by (simp add: cabeceras_tracker_final_def fila_sin_tracker_def)
  show "fila_a_dict cabeceras_tracker_final fila_sin_tracker ''host'' = Some (JStr ''10.0.0.5'')"
    using n [of 5] by (simp add: cabeceras_tracker_final_def fila_sin_tracker_def)
  show "fila_a_dict cabeceras_tracker_final fila_sin_tracker ''bitrate'' = Some (JStr ''600000'')"
    using n [of 6] by (simp add: cabeceras_tracker_final_def fila_sin_tracker_def)
  show "fila_a_dict cabeceras_tracker_final fila_sin_tracker ''tracker'' = Some JNull"
    using n [of 7] by (simp add: cabeceras_tracker_final_def fila_sin_tracker_def)
qed

lemma config_sin_tracker:
  "construir_config (fila_a_dict cabeceras_tracker_final fila_sin_tracker)
   = Inr objeto_sin_tracker"
  by (simp add: construir_config_def argumentos_config_def ligar_def campo_def
      campos_sin_tracker entero_def texto_def py_int_ejemplos objeto_sin_tracker_def)

lemma validar_sin_tracker:
  "validar_objeto (b_ip_address bib_demo) objeto_sin_tracker = Inr []"
  "tipado objeto_sin_tracker = None"
  "formato (o_nombre objeto_sin_tracker) = ''demo''"
  by (simp_all add: validar_objeto_def objeto_sin_tracker_def bib_demo_def coincide_nombre_def
      sin_salto_final_def es_alnum_def es_dominio_valido_def etiqueta_valida_def strip_def
      es_espacio_def es_ip_valida_def tipado_def formato_def)

text \<open>
  A line that leaves the tracker out passes the validation; the container of its name
  is looked up, its volume is cleaned, and the record then fails on the command, with
  nothing launched and nothing written.
\<close>

lemma procesar_sin_tracker:
  "procesar_evento bib_demo entorno_demo
     (fila_a_dict cabeceras_tracker_final fila_sin_tracker) f
   = (f, [Validado [], DockerPsA ''demo'', Limpieza ''acestreamengine_demo'' 2,
          ErrorRegistrado TypeError])"
  by (simp add: procesar_evento_def config_sin_tracker validar_sin_tracker verificar_demo
      limpieza_demo campos_entorno)

text \<open>
  On an object with \<open>None\<close> in a text field that \<open>validar\<close> examines: the host, the title
  and the source make it raise; the name is reported as a violation.
\<close>

lemma validar_objeto_none:
  "o_host obj = None \<Longrightarrow> validar_objeto ip_address obj = Inl TypeError"
  "o_host obj \<noteq> None \<Longrightarrow> o_titulo obj = None \<Longrightarrow>
     validar_objeto ip_address obj = Inl AttributeError"
  "o_host obj \<noteq> None \<Longrightarrow> o_titulo obj \<noteq> None \<Longrightarrow> o_source obj = None \<Longrightarrow>
     validar_objeto ip_address obj = Inl AttributeError"
  "o_host obj \<noteq> None \<Longrightarrow> o_titulo obj \<noteq> None \<Longrightarrow> o_source obj \<noteq> None \<Longrightarrow>
     o_nombre obj = None \<Longrightarrow>
     \<exists>errores. validar_objeto ip_address obj = Inr (NombreInvalido # errores)"
  by (auto simp: validar_objeto_def split: option.splits)

lemma procesar_evento_validado:
  "validar_evento (b_ip_address bib) ev = Inr errores \<Longrightarrow>
     \<exists>hecho. snd (procesar_evento bib env ev f) = Validado errores # hecho"
  by (auto simp: validar_evento_def procesar_evento_def ligar_def Let_def
      split: sum.splits prod.splits option.splits)

lemma procesar_evento_fallo:
  "validar_evento (b_ip_address bib) ev = Inl e \<Longrightarrow>
     procesar_evento bib env ev f = (f, [ErrorRegistrado e])"
  by (auto simp: validar_evento_def procesar_evento_def ligar_def split: sum.splits)

text \<open>
  C6, as amended. On a record whose fields have the declared types \<open>validar\<close> raises
  nothing and returns its list of violations. For a row with all its cells, the
  validation ends in a fault exactly when the text of the port or of the bitrate is not
  an integer: \<open>int\<close> raises \<open>ValueError\<close> before \<open>validar\<close> is called, and no violation
  is reported for it. When both are integers the result is the list of violations that
  \<open>validar\<close> gives on the typed record. In the engine a fault of the validation is logged
  by the handler of the record, which does nothing else (no container operation, no
  write); a list of violations is the first thing that the cycle records.
\<close>

theorem validar_evento_fallo:
  assumes "length r = 9"
  shows "((validar_evento ip (fila_a_dict cabeceras r) = Inl ValueError)
          = (py_int (r ! 2) = None \<or> py_int (r ! 7) = None))
     \<and> (\<forall>p b. py_int (r ! 2) = Some p \<and> py_int (r ! 7) = Some b \<longrightarrow>
          validar_evento ip (fila_a_dict cabeceras r)
          = Inr (validar ip \<lparr>nombre = r ! 0, titulo = r ! 1, puerto = p, tracker = r ! 4,
                              source = r ! 5, host = r ! 6, bitrate = b, token = r ! 3\<rparr>))
     \<and> (\<forall>e. validar_evento (b_ip_address bib) ev = Inl e \<longrightarrow>
          procesar_evento bib env ev f = (f, [ErrorRegistrado e]))
     \<and> (\<forall>errores. validar_evento (b_ip_address bib) ev = Inr errores \<longrightarrow>
          (\<exists>hecho. snd (procesar_evento bib env ev f) = Validado errores # hecho))
     \<and> validar_objeto ip (como_objeto c) = Inr (validar ip c)"
proof -
  from assms have "8 \<le> length r" by simp
  note c = construir_config_fila [OF this]
  have "(validar_evento ip (fila_a_dict cabeceras r) = Inl ValueError)
          = (py_int (r ! 2) = None \<or> py_int (r ! 7) = None)"
    by (auto simp: validar_evento_def c ligar_def validar_objeto_como_objeto
        split: option.splits)
  moreover have "\<forall>p b. py_int (r ! 2) = Some p \<and> py_int (r ! 7) = Some b \<longrightarrow>
          validar_evento ip (fila_a_dict cabeceras r)
          = Inr (validar ip \<lparr>nombre = r ! 0, titulo = r ! 1, puerto = p, tracker = r ! 4,
                              source = r ! 5, host = r ! 6, bitrate = b, token = r ! 3\<rparr>)"
    by (auto simp: validar_evento_def c ligar_def validar_objeto_como_objeto)
  moreover have "validar_objeto ip (como_objeto c) = Inr (validar ip c)"
    by (rule validar_objeto_como_objeto)
  ultimately show ?thesis
    using procesar_evento_fallo [of bib ev _ env f] procesar_evento_validado [of bib ev _ env f]
    by blast
qed

text \<open>
  The claim C6 as stated fails on a row whose port is \<open>abc\<close>: the validation ends with
  \<open>ValueError\<close> and no list of violations.
\<close>

theorem validar_evento_puerto_ilegible:
  "fila_puerto_malo ! 2 = ''abc''
   \<and> validar_evento (b_ip_address bib_demo) (fila_a_dict cabeceras fila_puerto_malo)
     = Inl ValueError
   \<and> procesar_evento bib_demo entorno_demo (fila_a_dict cabeceras fila_puerto_malo) almacen_demo
     = (almacen_demo, [ErrorRegistrado ValueError])"
  by (simp add: validar_evento_def procesar_evento_def config_de_fila_puerto_malo ligar_def
      fila_puerto_malo_def [THEN arg_cong [of _ _ "\<lambda>r. r ! 2"]])

theorem validar_evento_fallo_witness:
  "length fila_puerto_malo = 9
   \<and> validar_evento (\<lambda>s. False) (fila_a_dict cabeceras fila_puerto_malo) = Inl ValueError
   \<and> validar_evento (\<lambda>s. False) (fila_a_dict cabeceras (fila_demo[2 := ''80'']))
     = Inr [PuertoInvalido]
   \<and> procesar_evento (bib_demo\<lparr>b_ip_address := \<lambda>s. False\<rparr>) entorno_demo
       (fila_a_dict cabeceras fila_puerto_malo) almacen_demo
     = (almacen_demo, [ErrorRegistrado ValueError])
   \<and> procesar_evento (bib_demo\<lparr>b_ip_address := \<lambda>s. False\<rparr>) entorno_demo
       (fila_a_dict cabeceras (fila_demo[2 := ''80''])) almacen_demo
     = (almacen_demo, [Validado [PuertoInvalido]])"
proof -
  let ?bib = "bib_demo\<lparr>b_ip_address := \<lambda>s. False\<rparr>"
  have ip: "b_ip_address ?bib = (\<lambda>s. False)" by simp
  have l: "length fila_puerto_malo = 9" by (simp add: fila_puerto_malo_def)
  have l': "length (fila_demo[2 := ''80'']) = 9" by (simp add: fila_demo_def)
  have "py_int (fila_puerto_malo ! 2) = None"
    by (simp add: fila_puerto_malo_def py_int_ejemplos)
  with validar_evento_fallo [OF l, of "\<lambda>s. False"]
  have a: "validar_evento (\<lambda>s. False) (fila_a_dict cabeceras fila_puerto_malo) = Inl ValueError"
    by blast
  with validar_evento_fallo [OF l, of "\<lambda>s. False" ?bib
      "fila_a_dict cabeceras fila_puerto_malo" entorno_demo almacen_demo]
  have pa: "procesar_evento ?bib entorno_demo (fila_a_dict cabeceras fila_puerto_malo) almacen_demo
     = (almacen_demo, [ErrorRegistrado ValueError])"
    unfolding ip by blast
  have "py_int (fila_demo[2 := ''80''] ! 2) = Some 80 \<and> py_int (fila_demo[2 := ''80''] ! 7) = Some 600000"
    by (simp add: fila_demo_def py_int_def recortar_int_def es_espacio_int_def es_digito_def
        pocos_digitos_def limite_digitos_def valor_entero_def valor_digito_def)
  with validar_evento_fallo [OF l', of "\<lambda>s. False"]
  have "validar_evento (\<lambda>s. False) (fila_a_dict cabeceras (fila_demo[2 := ''80'']))
        = Inr (validar (\<lambda>s. False)
            \<lparr>nombre = fila_demo[2 := ''80''] ! 0, titulo = fila_demo[2 := ''80''] ! 1,
             puerto = 80, tracker = fila_demo[2 := ''80''] ! 4,
             source = fila_demo[2 := ''80''] ! 5, host = fila_demo[2 := ''80''] ! 6,
             bitrate = 600000, token = fila_demo[2 := ''80''] ! 3\<rparr>)"
    by blast
  then have "validar_evento (\<lambda>s. False) (fila_a_dict cabeceras (fila_demo[2 := ''80'']))
        = Inr [PuertoInvalido]"
    by (simp add: fila_demo_def validar_def coincide_nombre_def sin_salto_final_def
        es_alnum_def es_dominio_valido_def etiqueta_valida_def strip_def es_espacio_def
        es_ip_valida_def)
  then have b: "validar_evento (\<lambda>s. False) (fila_a_dict cabeceras (fila_demo[2 := ''80'']))
        = Inr [PuertoInvalido]" .
  with validar_evento_fallo [OF l, of "\<lambda>s. False" ?bib
      "fila_a_dict cabeceras (fila_demo[2 := ''80''])" entorno_demo almacen_demo]
  obtain hecho where "snd (procesar_evento ?bib entorno_demo
      (fila_a_dict cabeceras (fila_demo[2 := ''80''])) almacen_demo)
     = Validado [PuertoInvalido] # hecho"
    unfolding ip by blast
  moreover from b have "procesar_evento ?bib entorno_demo
      (fila_a_dict cabeceras (fila_demo[2 := ''80''])) almacen_demo
     = (almacen_demo, [Validado [PuertoInvalido]])"
    by (auto simp: validar_evento_def procesar_evento_def ligar_def split: sum.splits)
  ultimately show ?thesis using l a b pa by simp
qed

end
